theory Spec2Isabelle
  imports Complex_Main
begin

section \<open>Values held in a table\<close>

text \<open>
  The checkers of \<^verbatim>\<open>dispaset/preprocessing/data_check.py\<close> read pandas tables.
  A numeric cell is a numpy \<^verbatim>\<open>float64\<close> scalar: a finite value, which is a real
  number, or one of the three special values, which the code tests for
  (\<^verbatim>\<open>np.isnan\<close>, \<^verbatim>\<open>pd.isnull\<close>) and produces (\<^verbatim>\<open>+np.inf\<close>, a division by zero).
  The two zeros of \<^verbatim>\<open>float64\<close> are not told apart.
\<close>

datatype num = Fin real | PInf | NInf | NaN

text \<open>A cell of a table of units is a number or a Python \<^verbatim>\<open>str\<close>.\<close>

datatype cell = Num num | Str string

subsection \<open>Comparisons and arithmetic of numpy scalars\<close>

text \<open>
  Comparisons are exact.  Every comparison with \<^verbatim>\<open>nan\<close> is false,
  \<^verbatim>\<open>nan != x\<close> is true.
\<close>

fun neq :: "num \<Rightarrow> num \<Rightarrow> bool" where
  "neq (Fin x) (Fin y) = (x = y)"
| "neq PInf PInf = True"
| "neq NInf NInf = True"
| "neq _ _ = False"

fun nlt :: "num \<Rightarrow> num \<Rightarrow> bool" where
  "nlt (Fin x) (Fin y) = (x < y)"
| "nlt NaN _ = False"
| "nlt _ NaN = False"
| "nlt PInf _ = False"
| "nlt _ PInf = True"
| "nlt _ NInf = False"
| "nlt NInf (Fin y) = True"

definition ngt :: "num \<Rightarrow> num \<Rightarrow> bool" where
  "ngt a b = nlt b a"

definition nle :: "num \<Rightarrow> num \<Rightarrow> bool" where
  "nle a b = (nlt a b \<or> neq a b)"

definition nge :: "num \<Rightarrow> num \<Rightarrow> bool" where
  "nge a b = nle b a"

fun nneg :: "num \<Rightarrow> num" where
  "nneg (Fin x) = Fin (- x)"
| "nneg PInf = NInf"
| "nneg NInf = PInf"
| "nneg NaN = NaN"

fun nabs :: "num \<Rightarrow> num" where
  "nabs (Fin x) = Fin \<bar>x\<bar>"
| "nabs PInf = PInf"
| "nabs NInf = PInf"
| "nabs NaN = NaN"

text \<open>
  The sum, product or quotient of two finite values is the exact result rounded to a
  \<^verbatim>\<open>float64\<close>: to a nearest one, or to an infinity when the result is out of range.
  How an exact real is rounded is the parameter \<open>fl\<close> of the arithmetic, and of every
  checker that computes; nothing is assumed of it.  A decimal literal of the code, such
  as \<^verbatim>\<open>0.01\<close>, is the \<^verbatim>\<open>float64\<close> \<open>fl 0.01\<close>.
\<close>

type_synonym rounding = "real \<Rightarrow> num"

fun nadd :: "rounding \<Rightarrow> num \<Rightarrow> num \<Rightarrow> num" where
  "nadd fl (Fin x) (Fin y) = fl (x + y)"
| "nadd fl NaN _ = NaN"
| "nadd fl _ NaN = NaN"
| "nadd fl PInf NInf = NaN"
| "nadd fl NInf PInf = NaN"
| "nadd fl PInf _ = PInf"
| "nadd fl NInf _ = NInf"
| "nadd fl (Fin x) b = b"

definition nsub :: "rounding \<Rightarrow> num \<Rightarrow> num \<Rightarrow> num" where
  "nsub fl a b = nadd fl a (nneg b)"

fun nmul :: "rounding \<Rightarrow> num \<Rightarrow> num \<Rightarrow> num" where
  "nmul fl (Fin x) (Fin y) = fl (x * y)"
| "nmul fl NaN _ = NaN"
| "nmul fl _ NaN = NaN"
| "nmul fl a b =
     (if a = Fin 0 \<or> b = Fin 0 then NaN
      else if nlt (Fin 0) a = nlt (Fin 0) b then PInf else NInf)"

text \<open>
  numpy does not raise on a division by zero: it gives an infinity, or \<^verbatim>\<open>nan\<close> for
  \<^verbatim>\<open>0/0\<close> (and a RuntimeWarning, which is not a log message).
\<close>

fun ndiv :: "rounding \<Rightarrow> num \<Rightarrow> num \<Rightarrow> num" where
  "ndiv fl (Fin x) (Fin y) =
     (if y \<noteq> 0 then fl (x / y)
      else if x = 0 then NaN else if 0 < x then PInf else NInf)"
| "ndiv fl NaN _ = NaN"
| "ndiv fl _ NaN = NaN"
| "ndiv fl (Fin x) _ = Fin 0"
| "ndiv fl PInf (Fin y) = (if 0 \<le> y then PInf else NInf)"
| "ndiv fl NInf (Fin y) = (if 0 \<le> y then NInf else PInf)"
| "ndiv fl _ _ = NaN"

text \<open>The arithmetic that does not round, for computing with the numbers of an example.\<close>

definition exact :: rounding where
  "exact x = Fin x"

subsection \<open>Operations on cells\<close>

text \<open>
  Arithmetic or an ordering comparison with a \<^verbatim>\<open>str\<close> operand raises \<^verbatim>\<open>TypeError\<close>
  (the columns concerned are float columns; a \<^verbatim>\<open>str\<close> in one of them is an input error).
\<close>

datatype exn = KeyError | ValueError | TypeError | AttributeError | NameError | IndexError

fun cell_op :: "(num \<Rightarrow> num \<Rightarrow> 'a) \<Rightarrow> cell \<Rightarrow> cell \<Rightarrow> exn + 'a" where
  "cell_op f (Num x) (Num y) = Inr (f x y)"
| "cell_op f _ _ = Inl TypeError"

text \<open>\<^verbatim>\<open>pd.isnull\<close> and \<^verbatim>\<open>np.isnan\<close> of a scalar; \<^verbatim>\<open>isinstance(x, str)\<close>.\<close>

fun isnull :: "cell \<Rightarrow> bool" where
  "isnull (Num NaN) = True"
| "isnull _ = False"

fun is_str :: "cell \<Rightarrow> bool" where
  "is_str (Str s) = True"
| "is_str (Num x) = False"

text \<open>\<^verbatim>\<open>==\<close> of two cells, as pandas compares a column with a scalar.\<close>

fun cell_eq :: "cell \<Rightarrow> cell \<Rightarrow> bool" where
  "cell_eq (Num x) (Num y) = neq x y"
| "cell_eq (Str s) (Str t) = (s = t)"
| "cell_eq _ _ = False"

text \<open>\<^verbatim>\<open>str.lower\<close>, on the ASCII letters.\<close>

definition lower_char :: "char \<Rightarrow> char" where
  "lower_char c =
     (if 65 \<le> (of_char c :: nat) \<and> (of_char c :: nat) \<le> 90
      then char_of ((of_char c :: nat) + 32) else c)"

definition lower :: "string \<Rightarrow> string" where
  "lower s = map lower_char s"

section \<open>Log messages, termination and exceptions\<close>

text \<open>
  A checker has two effects besides its result: it calls \<^verbatim>\<open>logging\<close>, and it may stop
  early, by \<^verbatim>\<open>sys.exit(1)\<close> or by an exception.  A computation is modelled by the
  list of the log entries it emitted, in order, and by its result or the way it stopped.

  A log entry is the level, the fixed text of the message and the values inserted in the
  text.  An inserted value is a \<^verbatim>\<open>str\<close> literal of the code (\<open>Lit\<close>), a value
  inserted as it is (\<open>Val\<close>), or the \<^verbatim>\<open>str(...)\<close> of a value.
\<close>

datatype level = DEBUG | INFO | WARNING | ERROR | CRITICAL

datatype arg =
    Lit string
  | Val cell
  | StrOf cell
  | StrNum num
  | StrCells "cell list"
  | StrNat nat

datatype stop = SysExit nat | Raised exn

type_synonym entry = "level \<times> string \<times> arg list"

type_synonym 'a comp = "entry list \<times> (stop + 'a)"

definition ret :: "'a \<Rightarrow> 'a comp" where
  "ret x = ([], Inr x)"

definition raise :: "exn \<Rightarrow> 'a comp" where
  "raise e = ([], Inl (Raised e))"

definition sys_exit :: "nat \<Rightarrow> 'a comp" where
  "sys_exit n = ([], Inl (SysExit n))"

definition lift :: "exn + 'a \<Rightarrow> 'a comp" where
  "lift r = (case r of Inl e \<Rightarrow> raise e | Inr x \<Rightarrow> ret x)"

text \<open>Sequencing: the second computation runs only if the first one returned.\<close>

fun andthen :: "'a comp \<Rightarrow> ('a \<Rightarrow> 'b comp) \<Rightarrow> 'b comp" where
  "andthen (l, Inl s) f = (l, Inl s)"
| "andthen (l, Inr x) f = (case f x of (l', r) \<Rightarrow> (l @ l', r))"

primrec for_each :: "('a \<Rightarrow> unit comp) \<Rightarrow> 'a list \<Rightarrow> unit comp" where
  "for_each f [] = ret ()"
| "for_each f (x # xs) = andthen (f x) (\<lambda>_. for_each f xs)"

text \<open>A loop whose body assigns variables that are read after it, or in a later round.\<close>

primrec for_state :: "('s \<Rightarrow> 'a \<Rightarrow> 's comp) \<Rightarrow> 'a list \<Rightarrow> 's \<Rightarrow> 's comp" where
  "for_state f [] s = ret s"
| "for_state f (x # xs) s = andthen (f s x) (for_state f xs)"

text \<open>
  Reading a local variable that a loop or a branch may have left unassigned: Python raises
  \<^verbatim>\<open>UnboundLocalError\<close>, a \<^verbatim>\<open>NameError\<close>.
\<close>

definition read_local :: "'a option \<Rightarrow> 'a comp" where
  "read_local v = (case v of None \<Rightarrow> raise NameError | Some x \<Rightarrow> ret x)"

text \<open>
  A message built with \<^verbatim>\<open>+\<close> raises \<^verbatim>\<open>TypeError\<close> when a value inserted as it is
  is not a \<^verbatim>\<open>str\<close>, and then nothing is logged; a message built with
  \<^verbatim>\<open>format\<close> takes any value.
\<close>

fun arg_is_str :: "arg \<Rightarrow> bool" where
  "arg_is_str (Val c) = is_str c"
| "arg_is_str _ = True"

definition log_format :: "level \<Rightarrow> string \<Rightarrow> arg list \<Rightarrow> unit comp" where
  "log_format lv m args = ([(lv, m, args)], Inr ())"

definition log_concat :: "level \<Rightarrow> string \<Rightarrow> arg list \<Rightarrow> unit comp" where
  "log_concat lv m args =
     (if list_all arg_is_str args then ([(lv, m, args)], Inr ()) else raise TypeError)"

text \<open>The usual fatal path: the message, then \<^verbatim>\<open>sys.exit(1)\<close>.\<close>

definition fatal :: "level \<Rightarrow> string \<Rightarrow> arg list \<Rightarrow> 'a comp" where
  "fatal lv m args = andthen (log_concat lv m args) (\<lambda>_. sys_exit 1)"

section \<open>Tables\<close>

text \<open>
  A pandas \<^verbatim>\<open>DataFrame\<close>: the row labels and the columns, each a label and its cells.
  The tables the loader builds have pairwise different row labels, pairwise different
  column labels and columns as long as the index (\<open>wf_frame\<close>); \<^verbatim>\<open>loc\<close> is modelled
  for such tables (with a repeated label pandas returns a Series, not a cell).
\<close>

record ('c, 'v) frame =
  index :: "cell list"
  columns :: "('c \<times> 'v list) list"

definition wf_frame :: "('c, 'v) frame \<Rightarrow> bool" where
  "wf_frame t =
     (distinct (index t) \<and> distinct (map fst (columns t)) \<and>
      list_all (\<lambda>kc. length (snd kc) = length (index t)) (columns t))"

text \<open>\<^verbatim>\<open>key in plants\<close>\<close>

definition has_col :: "('c, 'v) frame \<Rightarrow> 'c \<Rightarrow> bool" where
  "has_col t key = (map_of (columns t) key \<noteq> None)"

fun position :: "'a \<Rightarrow> 'a list \<Rightarrow> nat option" where
  "position u [] = None"
| "position u (x # xs) =
     (if x = u then Some 0 else map_option Suc (position u xs))"

text \<open>\<^verbatim>\<open>plants[key]\<close>: the column, or \<^verbatim>\<open>KeyError\<close>.\<close>

definition col :: "('c, 'v) frame \<Rightarrow> 'c \<Rightarrow> exn + 'v list" where
  "col t key = (case map_of (columns t) key of None \<Rightarrow> Inl KeyError | Some c \<Rightarrow> Inr c)"

text \<open>\<^verbatim>\<open>plants.loc[u, key]\<close>: the cell, or \<^verbatim>\<open>KeyError\<close>.\<close>

definition loc :: "('c, 'v) frame \<Rightarrow> cell \<Rightarrow> 'c \<Rightarrow> exn + 'v" where
  "loc t u key =
     (case map_of (columns t) key of
        None \<Rightarrow> Inl KeyError
      | Some c \<Rightarrow>
          (case position u (index t) of
             None \<Rightarrow> Inl KeyError
           | Some i \<Rightarrow> if i < length c then Inr (c ! i) else Inl KeyError))"

text \<open>The number in a cell that a comparison has already accepted as a number.\<close>

fun the_num :: "cell \<Rightarrow> num" where
  "the_num (Num x) = x"
| "the_num (Str s) = NaN"

text \<open>The configuration is a Python \<^verbatim>\<open>dict\<close>.\<close>

type_synonym config = "(string \<times> cell) list"

type_synonym units = "(string, cell) frame"

section \<open>\<^verbatim>\<open>check_chp\<close>\<close>

text \<open>
  \<^verbatim>\<open>unitname = plants.loc[u,'Unit'] if 'Unit' in plants else str(u)\<close>, the first
  statement of four loops of \<^verbatim>\<open>check_chp\<close>.
\<close>

definition unitname_of :: "units \<Rightarrow> cell \<Rightarrow> arg comp" where
  "unitname_of plants u =
     (if has_col plants ''Unit''
      then andthen (lift (loc plants u ''Unit'')) (\<lambda>c. ret (Val c))
      else ret (StrOf u))"

text \<open>Lines 151 to 154: the three mandatory fields.\<close>

definition chp_fields :: "units \<Rightarrow> unit comp" where
  "chp_fields plants =
     for_each (\<lambda>key.
         if \<not> has_col plants key
         then fatal CRITICAL
           ''The power plants data does not contain the field, which is mandatory for CHP units''
           [Lit key]
         else ret ())
       [''CHPType'', ''CHPPowerToHeat'', ''CHPPowerLossFactor'']"

text \<open>Lines 156 to 167: the numeric fields hold numbers, none of them \<^verbatim>\<open>nan\<close>.\<close>

definition chp_nonnan :: "units \<Rightarrow> unit comp" where
  "chp_nonnan plants =
     for_each (\<lambda>key.
         for_each (\<lambda>u.
             andthen (unitname_of plants u) (\<lambda>unitname.
             andthen (lift (loc plants u key)) (\<lambda>v.
             if is_str v
             then fatal CRITICAL
               ''A non numeric value was detected in the power plants inputs for parameter''
               [Lit key]
             else if isnull v
             then fatal CRITICAL
               ''The power plants data is missing for unit number and parameter''
               [unitname, Lit key]
             else ret ())))
           (index plants))
       [''CHPPowerToHeat'', ''CHPPowerLossFactor'']"

text \<open>Lines 169 to 181: \<^verbatim>\<open>CHPType\<close> holds non-empty strings.\<close>

definition chp_strkeys :: "units \<Rightarrow> unit comp" where
  "chp_strkeys plants =
     for_each (\<lambda>key.
         for_each (\<lambda>u.
             andthen (unitname_of plants u) (\<lambda>unitname.
             andthen (lift (loc plants u key)) (\<lambda>v.
             if \<not> is_str v
             then fatal CRITICAL
               ''A numeric value was detected in the power plants inputs for parameter. This column should contain strings only.''
               [Lit key]
             else if v = Str []
             then fatal CRITICAL
               ''An empty value was detected in the power plants inputs for unit and parameter''
               [unitname, Lit key]
             else ret ())))
           (index plants))
       [''CHPType'']"

text \<open>\<^verbatim>\<open>plants.loc[u,'CHPType'].lower()\<close>; a float has no method \<^verbatim>\<open>lower\<close>.\<close>

definition chp_type_lower :: "units \<Rightarrow> cell \<Rightarrow> exn + string" where
  "chp_type_lower plants u =
     (case loc plants u ''CHPType'' of
        Inl e \<Rightarrow> Inl e
      | Inr (Str s) \<Rightarrow> Inr (lower s)
      | Inr (Num x) \<Rightarrow> Inl AttributeError)"

text \<open>
  The chained comparison \<^verbatim>\<open>a > x > b\<close> of lines 197 and 200 is Python's
  \<^verbatim>\<open>a > x and x > b\<close>.
\<close>

definition chained_gt :: "num \<Rightarrow> cell \<Rightarrow> num \<Rightarrow> exn + bool" where
  "chained_gt a x b =
     (case cell_op ngt (Num a) x of
        Inl e \<Rightarrow> Inl e
      | Inr False \<Rightarrow> Inr False
      | Inr True \<Rightarrow> cell_op ngt x (Num b))"

text \<open>
  Lines 206 to 214, for a unit of type \<^verbatim>\<open>extraction\<close>: the value of
  \<^verbatim>\<open>plant_MaxHeat\<close> that the efficiency is computed with.
\<close>

definition chp_extraction_MaxHeat :: "rounding \<Rightarrow> cell \<Rightarrow> cell \<Rightarrow> cell \<Rightarrow> cell comp" where
  "chp_extraction_MaxHeat fl plant_PowerCapacity plant_powertoheat plant_MaxHeat =
     andthen (lift (cell_op (ndiv fl) plant_PowerCapacity plant_powertoheat))
       (\<lambda>intersection_MaxHeat.
     if \<not> isnull plant_MaxHeat
     then andthen (lift (cell_op nlt (Num intersection_MaxHeat) plant_MaxHeat)) (\<lambda>b.
          if b
          then andthen (log_format WARNING
                 ''Given Maximum heat CHPMaxHeat is higher than the intersection point of the two other constraints (power loss factor and backpressure line) therefore it will not be ignored''
                 [Val plant_MaxHeat, StrNum intersection_MaxHeat])
               (\<lambda>_. ret (Num intersection_MaxHeat))
          else ret plant_MaxHeat)
     else ret (Num intersection_MaxHeat))"

text \<open>Lines 218 and 219: \<^verbatim>\<open>F = (P + C_v * Q)/eta\<close> and \<^verbatim>\<open>eta_tot = (P + Q) / F\<close>.\<close>

definition chp_Fuel_numerator :: "rounding \<Rightarrow> cell \<Rightarrow> cell \<Rightarrow> cell \<Rightarrow> exn + num" where
  "chp_Fuel_numerator fl plant_PowerCapacity plant_powerlossfactor plant_MaxHeat =
     (case cell_op (nmul fl) plant_powerlossfactor plant_MaxHeat of
        Inl e \<Rightarrow> Inl e
      | Inr x \<Rightarrow> cell_op (nadd fl) plant_PowerCapacity (Num x))"

definition chp_TotalEfficiency :: "rounding \<Rightarrow> cell \<Rightarrow> cell \<Rightarrow> num \<Rightarrow> exn + num" where
  "chp_TotalEfficiency fl plant_PowerCapacity plant_MaxHeat Fuel =
     (case cell_op (nadd fl) plant_PowerCapacity plant_MaxHeat of
        Inl e \<Rightarrow> Inl e
      | Inr x \<Rightarrow> Inr (ndiv fl x Fuel))"

text \<open>Lines 217 to 225, for a unit that is not of type \<^verbatim>\<open>p2h\<close>.\<close>

definition chp_efficiency ::
  "rounding \<Rightarrow> units \<Rightarrow> cell \<Rightarrow> arg \<Rightarrow> cell \<Rightarrow> cell \<Rightarrow> cell \<Rightarrow> unit comp" where
  "chp_efficiency fl plants u unitname plant_PowerCapacity plant_powerlossfactor plant_MaxHeat =
     andthen (lift (chp_Fuel_numerator fl plant_PowerCapacity plant_powerlossfactor plant_MaxHeat))
       (\<lambda>numerator.
     andthen (lift (loc plants u ''Efficiency'')) (\<lambda>Efficiency.
     andthen (lift (cell_op (ndiv fl) (Num numerator) Efficiency)) (\<lambda>Fuel.
     andthen (lift (chp_TotalEfficiency fl plant_PowerCapacity plant_MaxHeat Fuel))
       (\<lambda>TotalEfficiency.
     andthen (log_format DEBUG ''Highest overall efficiency of CHP plant is''
                [Val u, StrNum TotalEfficiency]) (\<lambda>_.
     andthen (if nlt TotalEfficiency (Fin 0) \<or> ngt TotalEfficiency (fl 1.14)
              then fatal CRITICAL
                ''The calculated value of the total CHP efficiency for unit is, which is unrealistic!''
                [unitname, StrNum TotalEfficiency]
              else ret ()) (\<lambda>_.
     if ngt TotalEfficiency (fl 0.95)
     then log_concat WARNING
       ''The calculated value of the total CHP efficiency for unit is, which is very high!''
       [unitname, StrNum TotalEfficiency]
     else ret ()))))))"

text \<open>
  Lines 185 to 225, the body of the loop over the units.  The loop assigns
  \<^verbatim>\<open>unitname\<close>, which the loops of lines 234 to 251 read without assigning it: the
  body returns it.
\<close>

definition chp_unit :: "rounding \<Rightarrow> units \<Rightarrow> arg option \<Rightarrow> cell \<Rightarrow> arg option comp" where
  "chp_unit fl plants previous u =
     andthen (unitname_of plants u) (\<lambda>unitname.
     andthen (lift (loc plants u ''PowerCapacity'')) (\<lambda>plant_PowerCapacity.
     andthen (lift (loc plants u ''CHPMaxHeat'')) (\<lambda>plant_MaxHeat.
     andthen (lift (loc plants u ''CHPPowerToHeat'')) (\<lambda>plant_powertoheat.
     andthen (lift (loc plants u ''CHPPowerLossFactor'')) (\<lambda>plant_powerlossfactor.
     andthen (lift (loc plants u ''CHPType'')) (\<lambda>CHPType_cell.
     andthen (lift (chp_type_lower plants u)) (\<lambda>CHPType.
     andthen (if CHPType \<notin> set [''extraction'', ''back-pressure'', ''p2h'']
              then fatal CRITICAL
                ''The value of CHPType should be extraction, back-pressure or p2h. The type of unit is''
                [Val u, StrOf CHPType_cell]
              else ret ()) (\<lambda>_.
     andthen (lift (chained_gt (Fin 0) plant_powertoheat (Fin 10))) (\<lambda>b.
     andthen (if b
              then fatal CRITICAL
                ''The value of CHPPowerToHeat should be higher or equal to zero and lower than 10. Unit has a value of''
                [Val u, StrOf plant_powertoheat]
              else ret ()) (\<lambda>_.
     andthen (lift (chained_gt (Fin 0) plant_powerlossfactor (Fin 1))) (\<lambda>b.
     andthen (if b \<and> CHPType \<noteq> ''p2h''
              then fatal CRITICAL
                ''The value of CHPPowerLossFactor should be higher or equal to zero and lower than 1. Unit has a value of''
                [Val u, StrOf plant_powerlossfactor]
              else ret ()) (\<lambda>_.
     andthen (if CHPType = ''back-pressure'' \<and> \<not> cell_eq plant_powerlossfactor (Num (Fin 0))
              then fatal CRITICAL
                ''The value of CHPPowerLossFactor must be zero if the CHP types is back-pressure. Unit has a value of''
                [Val u, StrOf plant_powerlossfactor]
              else ret ()) (\<lambda>_.
     andthen (if CHPType = ''extraction''
              then chp_extraction_MaxHeat fl plant_PowerCapacity plant_powertoheat plant_MaxHeat
              else ret plant_MaxHeat) (\<lambda>plant_MaxHeat.
     andthen (if CHPType \<noteq> ''p2h''
              then chp_efficiency fl plants u unitname plant_PowerCapacity plant_powerlossfactor
                     plant_MaxHeat
              else ret ()) (\<lambda>_.
     ret (Some unitname))))))))))))))))"

text \<open>Lines 228 to 232.\<close>

definition chp_maxheat_warnings :: "units \<Rightarrow> unit comp" where
  "chp_maxheat_warnings plants =
     (if has_col plants ''CHPMaxHeat''
      then for_each (\<lambda>u.
             andthen (lift (loc plants u ''CHPMaxHeat'')) (\<lambda>plant_MaxHeat.
             andthen (lift (cell_op nle plant_MaxHeat (Num (Fin 0)))) (\<lambda>b.
             if b
             then log_format WARNING
               ''CHPMaxHeat for plant is which shuts down any heat production.''
               [Val u, Val plant_MaxHeat]
             else ret ())))
           (index plants)
      else ret ())"

text \<open>Lines 234 to 240.\<close>

definition chp_storage_warnings :: "rounding \<Rightarrow> units \<Rightarrow> arg option \<Rightarrow> unit comp" where
  "chp_storage_warnings fl plants unitname =
     (if has_col plants ''STOCapacity''
      then for_each (\<lambda>u.
             andthen (lift (loc plants u ''PowerCapacity'')) (\<lambda>PowerCapacity.
             andthen (lift (loc plants u ''CHPPowerToHeat'')) (\<lambda>CHPPowerToHeat.
             andthen (lift (cell_op (ndiv fl) PowerCapacity CHPPowerToHeat)) (\<lambda>Qdot.
             andthen (lift (loc plants u ''STOCapacity'')) (\<lambda>STOCapacity.
             andthen (lift (cell_op nlt STOCapacity (Num (nmul fl Qdot (fl 0.5))))) (\<lambda>low.
             if low
             then andthen (read_local unitname) (\<lambda>name.
                  log_concat WARNING
                    ''Unit: The value of the thermal storage capacity seems very low compared to its thermal power''
                    [name, StrOf STOCapacity, StrNum Qdot])
             else andthen (lift (cell_op ngt STOCapacity (Num (nmul fl Qdot (Fin 24))))) (\<lambda>high.
                  if high
                  then andthen (read_local unitname) (\<lambda>name.
                       log_concat WARNING
                         ''Unit: The value of the thermal storage capacity seems very high compared to its thermal power''
                         [name, StrOf STOCapacity, StrNum Qdot])
                  else ret ())))))))
           (index plants)
      else ret ())"

text \<open>
  Lines 242 to 251: the self-discharge of the thermal storage.  The branches are tried in
  the order of the source: \<^verbatim>\<open>< 0\<close>, \<^verbatim>\<open>> 1\<close>, \<^verbatim>\<open>> 24\<close>.
\<close>

definition chp_selfdischarge :: "rounding \<Rightarrow> units \<Rightarrow> arg option \<Rightarrow> unit comp" where
  "chp_selfdischarge fl plants unitname =
     (if has_col plants ''STOSelfDischarge''
      then for_each (\<lambda>u.
             andthen (lift (loc plants u ''STOSelfDischarge'')) (\<lambda>STOSelfDischarge.
             andthen (lift (cell_op nlt STOSelfDischarge (Num (Fin 0)))) (\<lambda>negative.
             if negative
             then andthen (read_local unitname) (\<lambda>name.
                  fatal ERROR
                    ''Unit: The value of the thermal storage self-discharge cannot be negative''
                    [name, StrNum (nmul fl (the_num STOSelfDischarge) (Fin 100))])
             else andthen (lift (cell_op ngt STOSelfDischarge (Num (Fin 1)))) (\<lambda>above_1.
                  if above_1
                  then andthen (read_local unitname) (\<lambda>name.
                       log_concat WARNING
                         ''Unit: The value of the thermal storage self-discharge seems very high''
                         [name, StrNum (nmul fl (the_num STOSelfDischarge) (Fin 100))])
                  else andthen (lift (cell_op ngt STOSelfDischarge (Num (Fin 24)))) (\<lambda>above_24.
                       if above_24
                       then andthen (read_local unitname) (\<lambda>name.
                            fatal ERROR
                              ''Unit: The value of the thermal storage self-discharge is too high''
                              [name, StrNum (nmul fl (the_num STOSelfDischarge) (Fin 100))])
                       else ret ())))))
           (index plants)
      else ret ())"

definition check_chp :: "rounding \<Rightarrow> config \<Rightarrow> units \<Rightarrow> bool comp" where
  "check_chp fl config plants =
     andthen (chp_fields plants) (\<lambda>_.
     andthen (chp_nonnan plants) (\<lambda>_.
     andthen (chp_strkeys plants) (\<lambda>_.
     andthen (for_state (chp_unit fl plants) (index plants) None) (\<lambda>unitname.
     andthen (chp_maxheat_warnings plants) (\<lambda>_.
     andthen (chp_storage_warnings fl plants unitname) (\<lambda>_.
     andthen (chp_selfdischarge fl plants unitname) (\<lambda>_.
     ret True)))))))"

text \<open>\<^verbatim>\<open>plants.Technology\<close>: the column as an attribute, or \<^verbatim>\<open>AttributeError\<close>.\<close>

definition attr :: "('c, 'v) frame \<Rightarrow> 'c \<Rightarrow> exn + 'v list" where
  "attr t key = (case map_of (columns t) key of None \<Rightarrow> Inl AttributeError | Some c \<Rightarrow> Inr c)"

text \<open>The rows by position, as \<^verbatim>\<open>iterrows\<close> gives them, and the field of a row.\<close>

definition row_numbers :: "('c, 'v) frame \<Rightarrow> nat list" where
  "row_numbers t = [0..<length (index t)]"

definition field :: "('c, 'v) frame \<Rightarrow> nat \<Rightarrow> 'c \<Rightarrow> exn + 'v" where
  "field t i key =
     (case map_of (columns t) key of
        None \<Rightarrow> Inl KeyError
      | Some c \<Rightarrow> if i < length c then Inr (c ! i) else Inl KeyError)"

section \<open>Categories of technologies\<close>


definition isStorage :: "cell \<Rightarrow> bool" where
  "isStorage tech =
     (tech \<in> set [Str ''HDAM'', Str ''HPHS'', Str ''CAES'', Str ''BATS'', Str ''BEVS'',
                   Str ''THMS'', Str ''P2GS''])"

section \<open>\<^verbatim>\<open>check_units\<close>\<close>

text \<open>Pointwise operations on a column; a \<^verbatim>\<open>str\<close> cell makes the whole operation raise.\<close>

primrec map_exn :: "('a \<Rightarrow> exn + 'b) \<Rightarrow> 'a list \<Rightarrow> exn + 'b list" where
  "map_exn f [] = Inr []"
| "map_exn f (x # xs) =
     (case f x of
        Inl e \<Rightarrow> Inl e
      | Inr y \<Rightarrow> (case map_exn f xs of Inl e \<Rightarrow> Inl e | Inr ys \<Rightarrow> Inr (y # ys)))"

text \<open>\<^verbatim>\<open>xs[mask]\<close>: the entries of a column where a Boolean column is true.\<close>

definition mask_select :: "'a list \<Rightarrow> bool list \<Rightarrow> 'a list" where
  "mask_select xs flags = map fst (filter snd (zip xs flags))"

text \<open>\<^verbatim>\<open>Series.duplicated()\<close>: true at every entry that occurred earlier in the column.\<close>

fun duplicated_from :: "'a list \<Rightarrow> 'a list \<Rightarrow> bool list" where
  "duplicated_from seen [] = []"
| "duplicated_from seen (x # xs) = (x \<in> set seen) # duplicated_from (x # seen) xs"

definition duplicated :: "'a list \<Rightarrow> bool list" where
  "duplicated xs = duplicated_from [] xs"

text \<open>
  \<^verbatim>\<open>float(x)\<close>: a number as it is; a \<^verbatim>\<open>str\<close> as Python reads it, which raises
  \<^verbatim>\<open>ValueError\<close> when it is not a number.  How Python reads a \<^verbatim>\<open>str\<close> as a
  float is a parameter of the model (\<open>parse\<close>).
\<close>

fun py_float :: "(string \<Rightarrow> num option) \<Rightarrow> cell \<Rightarrow> exn + num" where
  "py_float parse (Num x) = Inr x"
| "py_float parse (Str s) = (case parse s of None \<Rightarrow> Inl ValueError | Some x \<Rightarrow> Inr x)"

fun is_integer :: "num \<Rightarrow> bool" where
  "is_integer (Fin x) = (x = of_int \<lfloor>x\<rfloor>)"
| "is_integer _ = False"

definition units_keys :: "string list" where
  "units_keys =
     [''Unit'', ''Fuel'', ''Zone'', ''Technology'', ''PowerCapacity'', ''PartLoadMin'',
      ''RampUpRate'', ''RampDownRate'', ''StartUpTime'', ''MinUpTime'', ''MinDownTime'',
      ''NoLoadCost'', ''StartUpCost'', ''Efficiency'', ''CO2Intensity'']"

definition units_NonNaNKeys :: "string list" where
  "units_NonNaNKeys =
     [''PowerCapacity'', ''PartLoadMin'', ''RampUpRate'', ''RampDownRate'', ''Efficiency'',
      ''RampingCost'', ''CO2Intensity'']"

definition units_StrKeys :: "string list" where
  "units_StrKeys = [''Unit'', ''Zone'', ''Fuel'', ''Technology'']"

text \<open>Lines 266 to 274: the optional column \<^verbatim>\<open>Nunits\<close>; it extends both lists of keys.\<close>

definition Nunits_keys :: "units \<Rightarrow> string list" where
  "Nunits_keys plants = (if has_col plants ''Nunits'' then [''Nunits''] else [])"

definition units_Nunits :: "(string \<Rightarrow> num option) \<Rightarrow> units \<Rightarrow> unit comp" where
  "units_Nunits parse plants =
     (if has_col plants ''Nunits''
      then andthen (lift (col plants ''Nunits'')) (\<lambda>c.
           andthen (lift (map_exn (py_float parse) c)) (\<lambda>xs.
           if list_ex (\<lambda>x. \<not> is_integer x) xs
           then fatal ERROR
             ''Some values are not integers in the Nunits column of the plant database'' []
           else ret ()))
      else log_format INFO
        ''The columns Nunits is not present in the power plant database. A value of one will be assumed by default''
        [])"

text \<open>Lines 276 to 279.\<close>

definition units_fields :: "units \<Rightarrow> unit comp" where
  "units_fields plants =
     for_each (\<lambda>key.
         if \<not> has_col plants key
         then fatal CRITICAL
           ''The power plants data does not contain the field, which is mandatory'' [Lit key]
         else ret ())
       (units_keys @ Nunits_keys plants)"

text \<open>Lines 281 to 288.  The lookup \<^verbatim>\<open>plants.loc[u, key]\<close> is not guarded.\<close>

definition units_nonnan :: "units \<Rightarrow> unit comp" where
  "units_nonnan plants =
     for_each (\<lambda>key.
         for_each (\<lambda>u.
             andthen (lift (loc plants u key)) (\<lambda>v.
             if is_str v
             then fatal CRITICAL
               ''A non numeric value was detected in the power plants inputs for parameter''
               [Lit key]
             else if isnull v
             then fatal CRITICAL
               ''The power plants data is missing for unit number and parameter''
               [StrOf u, Lit key]
             else ret ()))
           (index plants))
       (units_NonNaNKeys @ Nunits_keys plants)"

text \<open>Lines 290 to 299.\<close>

definition units_strkeys :: "units \<Rightarrow> unit comp" where
  "units_strkeys plants =
     for_each (\<lambda>key.
         for_each (\<lambda>u.
             andthen (lift (loc plants u key)) (\<lambda>v.
             if \<not> is_str v
             then fatal CRITICAL
               ''A numeric value was detected in the power plants inputs for parameter. This column should contain strings only.''
               [Lit key]
             else if v = Str []
             then fatal CRITICAL
               ''An empty value was detected in the power plants inputs for unit and parameter''
               [StrOf u, Lit key]
             else ret ()))
           (index plants))
       units_StrKeys"

text \<open>Everything \<^verbatim>\<open>check_units\<close> does before it looks at the names of the units.\<close>

definition units_columns :: "(string \<Rightarrow> num option) \<Rightarrow> units \<Rightarrow> unit comp" where
  "units_columns parse plants =
     andthen (units_Nunits parse plants) (\<lambda>_.
     andthen (units_fields plants) (\<lambda>_.
     andthen (units_nonnan plants) (\<lambda>_.
     units_strkeys plants)))"

text \<open>
  Lines 311 to 314: the names of the units are unique.  The message holds the list
  \<^verbatim>\<open>duplicates\<close>, its first entry and the zones of the rows with that name.
\<close>

definition units_unique :: "units \<Rightarrow> unit comp" where
  "units_unique plants =
     andthen (lift (col plants ''Unit'')) (\<lambda>Unit.
     if length (remdups Unit) \<noteq> length Unit
     then (let duplicates = mask_select Unit (duplicated Unit) in
           case duplicates of
             [] \<Rightarrow> raise IndexError
           | d # ds \<Rightarrow>
               andthen (lift (attr plants ''Zone'')) (\<lambda>Zone.
               fatal ERROR
                 ''The names of the power plants are not unique. The following names are duplicates: . appears for example in the following zones:''
                 [StrCells duplicates, Val d,
                  StrCells (mask_select Zone (map (\<lambda>n. cell_eq n d) Unit))]))
     else ret ())"

text \<open>
  Lines 316 to 350: a range check of one column against a bound.  The comparison is
  pointwise; \<^verbatim>\<open>plantlist\<close> holds the names of the units where it is true.  The
  four dictionaries of bounds are gone through in the order their keys are written in
  (the order of a \<^verbatim>\<open>dict\<close> since Python 3.7).
\<close>

definition range_check ::
  "units \<Rightarrow> string \<Rightarrow> (num \<Rightarrow> num \<Rightarrow> bool) \<Rightarrow> cell \<Rightarrow> string \<Rightarrow> arg list \<Rightarrow> unit comp" where
  "range_check plants key violates bound message args =
     andthen (lift (col plants key)) (\<lambda>c.
     andthen (lift (map_exn (\<lambda>v. cell_op violates v bound) c)) (\<lambda>flags.
     if list_ex (\<lambda>b. b) flags
     then andthen (lift (col plants ''Unit'')) (\<lambda>Unit.
          fatal CRITICAL message (Lit key # args @ [StrCells (mask_select Unit flags)]))
     else ret ()))"

definition units_lower :: "units \<Rightarrow> unit comp" where
  "units_lower plants =
     for_each (\<lambda>key.
         range_check plants key nlt (Num (Fin 0))
           ''The value of should be higher or equal to zero. A negative value has been found for units''
           [])
       [''PowerCapacity'', ''PartLoadMin'', ''StartUpTime'', ''MinUpTime'', ''MinDownTime'',
        ''NoLoadCost'', ''StartUpCost'']"

definition units_lower_hard :: "units \<Rightarrow> unit comp" where
  "units_lower_hard plants =
     for_each (\<lambda>key.
         range_check plants key nle (Num (Fin 0))
           ''The value of should be strictly higher than zero. A null or negative value has been found for units''
           [])
       ([''RampUpRate'', ''RampDownRate'', ''Efficiency''] @ Nunits_keys plants)"

definition units_higher :: "units \<Rightarrow> unit comp" where
  "units_higher plants =
     for_each (\<lambda>key.
         range_check plants key ngt (Num (Fin 1))
           ''The value of should be lower or equal to one. A higher value has been found for units''
           [])
       [''PartLoadMin'', ''Efficiency'']"

text \<open>\<^verbatim>\<open>config['HorizonLength'] * 24\<close>\<close>

definition horizon_hours :: "rounding \<Rightarrow> config \<Rightarrow> exn + num" where
  "horizon_hours fl config =
     (case map_of config ''HorizonLength'' of
        None \<Rightarrow> Inl KeyError
      | Some h \<Rightarrow> cell_op (nmul fl) h (Num (Fin 24)))"

definition units_higher_time :: "rounding \<Rightarrow> config \<Rightarrow> units \<Rightarrow> unit comp" where
  "units_higher_time fl config plants =
     for_each (\<lambda>key.
         andthen (lift (col plants key)) (\<lambda>c.
         andthen (lift (horizon_hours fl config)) (\<lambda>hours.
         range_check plants key nge (Num hours)
           ''The value of should be lower than the horizon length ( hours). A higher value has been found for units''
           [StrNum hours])))
       [''MinUpTime'', ''MinDownTime'']"

definition check_units ::
  "(string \<Rightarrow> num option) \<Rightarrow> rounding \<Rightarrow> config \<Rightarrow> units \<Rightarrow> bool comp" where
  "check_units parse fl config plants =
     andthen (units_columns parse plants) (\<lambda>_.
     andthen (units_unique plants) (\<lambda>_.
     andthen (units_lower plants) (\<lambda>_.
     andthen (units_lower_hard plants) (\<lambda>_.
     andthen (units_higher plants) (\<lambda>_.
     andthen (units_higher_time fl config plants) (\<lambda>_.
     ret True))))))"

section \<open>\<^verbatim>\<open>check_AvailabilityFactors\<close>\<close>





section \<open>\<^verbatim>\<open>check_clustering\<close>\<close>

text \<open>
  \<^verbatim>\<open>drop_duplicates\<close> keeps the first of equal rows; the rows are compared as values
  (\<^verbatim>\<open>nan\<close> equal to \<^verbatim>\<open>nan\<close>).
\<close>

fun drop_duplicates_from :: "'a list \<Rightarrow> 'a list \<Rightarrow> 'a list" where
  "drop_duplicates_from seen [] = []"
| "drop_duplicates_from seen (x # xs) =
     (if x \<in> set seen then drop_duplicates_from seen xs
      else x # drop_duplicates_from (x # seen) xs)"

definition drop_duplicates :: "'a list \<Rightarrow> 'a list" where
  "drop_duplicates xs = drop_duplicates_from [] xs"

text \<open>
  \<^verbatim>\<open>Series.sum()\<close> skips \<^verbatim>\<open>nan\<close>, and the sum of no entry is 0.  In which order
  pandas adds the entries, and so how the sum is rounded, is not fixed by the code: the
  summation is the parameter \<open>series_sum\<close> of \<^verbatim>\<open>check_clustering\<close>, of which nothing is
  assumed.  \<open>exact_sum\<close> is the summation that does not round.
\<close>

type_synonym summation = "num list \<Rightarrow> num"

definition exact_sum :: summation where
  "exact_sum xs = foldl (nadd exact) (Fin 0) (filter (\<lambda>x. x \<noteq> NaN) xs)"

text \<open>
  Lines 63 and 64: the pairs of technology and fuel of the table.  The comprehension
  reads \<^verbatim>\<open>plants.Technology\<close> and \<^verbatim>\<open>plants.Fuel\<close> once for each row, so a table
  without rows raises nothing here.
\<close>

definition tech_fuel_pairs :: "units \<Rightarrow> exn + (cell \<times> cell) list" where
  "tech_fuel_pairs plants =
     (case map_exn (\<lambda>idx.
               case attr plants ''Technology'' of
                 Inl e \<Rightarrow> Inl e
               | Inr Technology \<Rightarrow>
                   (case attr plants ''Fuel'' of
                      Inl e \<Rightarrow> Inl e
                    | Inr Fuel \<Rightarrow>
                        (case position idx (index plants) of
                           None \<Rightarrow> Inl KeyError
                         | Some i \<Rightarrow>
                             if i < length Technology \<and> i < length Fuel
                             then Inr (Technology ! i, Fuel ! i) else Inl KeyError)))
             (index plants) of
        Inl e \<Rightarrow> Inl e
      | Inr techs \<Rightarrow> Inr (drop_duplicates techs))"

text \<open>
  Lines 67 to 70, for one table: the rows of the technology and the fuel, and the sum of
  \<^verbatim>\<open>PowerCapacity * Nunits\<close> over them.
\<close>

definition installed_capacity ::
  "rounding \<Rightarrow> summation \<Rightarrow> units \<Rightarrow> cell \<times> cell \<Rightarrow> exn + num" where
  "installed_capacity fl series_sum t tech =
     (case attr t ''Technology'' of Inl e \<Rightarrow> Inl e | Inr Technology \<Rightarrow>
      case attr t ''Fuel'' of Inl e \<Rightarrow> Inl e | Inr Fuel \<Rightarrow>
      let rows = map (\<lambda>(a, b). cell_eq a (fst tech) \<and> cell_eq b (snd tech)) (zip Technology Fuel) in
      case attr t ''PowerCapacity'' of Inl e \<Rightarrow> Inl e | Inr PowerCapacity \<Rightarrow>
      case attr t ''Nunits'' of Inl e \<Rightarrow> Inl e | Inr Nunits \<Rightarrow>
      case map_exn (\<lambda>(p, n). cell_op (nmul fl) p n)
             (zip (mask_select PowerCapacity rows) (mask_select Nunits rows)) of
        Inl e \<Rightarrow> Inl e
      | Inr products \<Rightarrow> Inr (series_sum products))"

text \<open>The test of lines 71 and 84: \<^verbatim>\<open>np.abs(a - b)/(a + 0.0001) > 0.01\<close>.\<close>

definition differs :: "rounding \<Rightarrow> num \<Rightarrow> num \<Rightarrow> bool" where
  "differs fl a b =
     ngt (ndiv fl (nabs (nsub fl a b)) (nadd fl a (fl 0.0001))) (fl 0.01)"

text \<open>Lines 66 to 73, the body of the loop over the pairs.\<close>

definition clustering_pair ::
  "rounding \<Rightarrow> summation \<Rightarrow> units \<Rightarrow> units \<Rightarrow> cell \<times> cell \<Rightarrow> unit comp" where
  "clustering_pair fl series_sum plants plants_merged tech =
     andthen (lift (case attr plants ''Technology'' of Inl e \<Rightarrow> Inl e | Inr c \<Rightarrow>
                    case attr plants ''Fuel'' of Inl e \<Rightarrow> Inl e | Inr c \<Rightarrow>
                    case attr plants_merged ''Technology'' of Inl e \<Rightarrow> Inl e | Inr c \<Rightarrow>
                    attr plants_merged ''Fuel'')) (\<lambda>_.
     andthen (lift (installed_capacity fl series_sum plants tech)) (\<lambda>P_old.
     andthen (lift (installed_capacity fl series_sum plants_merged tech)) (\<lambda>P_new.
     if differs fl P_old P_new
     then fatal ERROR
       ''The installed capacity for technology and fuel is not equal between the original units table (P = ) and the clustered table (P = )''
       [Val (fst tech), Val (snd tech), StrNum P_old, StrNum P_new]
     else ret ())))"

text \<open>Lines 75 to 83: the storage rows and the total storage capacity of a table.\<close>

definition List_tech_storage :: "cell list" where
  "List_tech_storage =
     [Str ''HDAM'', Str ''HPHS'', Str ''BATS'', Str ''BEVS'', Str ''CAES'', Str ''THMS'']"

definition isstorage_rows :: "units \<Rightarrow> exn + bool list" where
  "isstorage_rows t =
     (if index t = [] then Inr []
      else case attr t ''Technology'' of
             Inl e \<Rightarrow> Inl e
           | Inr Technology \<Rightarrow> Inr (map (\<lambda>x. x \<in> set List_tech_storage) Technology))"

definition TotalStorage :: "rounding \<Rightarrow> summation \<Rightarrow> units \<Rightarrow> bool list \<Rightarrow> exn + num" where
  "TotalStorage fl series_sum t isstorage =
     (case attr t ''STOCapacity'' of Inl e \<Rightarrow> Inl e | Inr STOCapacity \<Rightarrow>
      case attr t ''Nunits'' of Inl e \<Rightarrow> Inl e | Inr Nunits \<Rightarrow>
      case map_exn (\<lambda>(s, n). cell_op (nmul fl) s n)
             (zip (mask_select STOCapacity isstorage) (mask_select Nunits isstorage)) of
        Inl e \<Rightarrow> Inl e
      | Inr products \<Rightarrow> Inr (series_sum products))"

text \<open>
  Lines 84 to 87: a difference of the storage capacities is logged; the
  \<^verbatim>\<open>sys.exit(1)\<close> of this branch is commented out in the source.
\<close>

definition check_clustering :: "rounding \<Rightarrow> summation \<Rightarrow> units \<Rightarrow> units \<Rightarrow> bool comp" where
  "check_clustering fl series_sum plants plants_merged =
     andthen (lift (tech_fuel_pairs plants)) (\<lambda>techs.
     andthen (for_each (clustering_pair fl series_sum plants plants_merged) techs) (\<lambda>_.
     andthen (lift (isstorage_rows plants)) (\<lambda>isstorage.
     andthen (lift (isstorage_rows plants_merged)) (\<lambda>isstorage_merged.
     andthen (lift (TotalStorage fl series_sum plants isstorage)) (\<lambda>TotalStorage_plants.
     andthen (lift (TotalStorage fl series_sum plants_merged isstorage_merged)) (\<lambda>TotalStorage_merged.
     andthen (if differs fl TotalStorage_plants TotalStorage_merged
              then log_concat ERROR
                ''The total installed storage capacity is not equal between the original units table () and the clustered table ()''
                [StrNum TotalStorage_plants, StrNum TotalStorage_merged]
              else ret ()) (\<lambda>_.
     ret True)))))))"

section \<open>\<^verbatim>\<open>check_heat_demand\<close>\<close>









section \<open>Tables of one unit\<close>

text \<open>
  A table of one CHP unit, with the default row label 0: its type, \<^verbatim>\<open>PowerCapacity\<close>,
  \<^verbatim>\<open>CHPPowerToHeat\<close>, \<^verbatim>\<open>Efficiency\<close>, \<^verbatim>\<open>CHPPowerLossFactor\<close> and
  \<^verbatim>\<open>CHPMaxHeat\<close> (\<open>NaN\<close> when no value is given).
\<close>

definition chp_table :: "string \<Rightarrow> real \<Rightarrow> real \<Rightarrow> real \<Rightarrow> real \<Rightarrow> num \<Rightarrow> units" where
  "chp_table type PowerCapacity CHPPowerToHeat Efficiency CHPPowerLossFactor CHPMaxHeat =
     \<lparr> index = [Num (Fin 0)],
       columns =
         [(''Unit'', [Str ''CHP1'']),
          (''CHPType'', [Str type]),
          (''PowerCapacity'', [Num (Fin PowerCapacity)]),
          (''CHPPowerToHeat'', [Num (Fin CHPPowerToHeat)]),
          (''Efficiency'', [Num (Fin Efficiency)]),
          (''CHPPowerLossFactor'', [Num (Fin CHPPowerLossFactor)]),
          (''CHPMaxHeat'', [Num CHPMaxHeat])] \<rparr>"

text \<open>The same unit with a thermal storage of the given self-discharge.\<close>

definition chp_storage_table :: "real \<Rightarrow> units" where
  "chp_storage_table STOSelfDischarge =
     \<lparr> index = [Num (Fin 0)],
       columns =
         [(''Unit'', [Str ''CHP1'']),
          (''CHPType'', [Str ''extraction'']),
          (''PowerCapacity'', [Num (Fin 100)]),
          (''CHPPowerToHeat'', [Num (Fin 2)]),
          (''Efficiency'', [Num (Fin 0.4)]),
          (''CHPPowerLossFactor'', [Num (Fin 0.15)]),
          (''CHPMaxHeat'', [Num NaN]),
          (''STOSelfDischarge'', [Num (Fin STOSelfDischarge)])] \<rparr>"

section \<open>Tables of units with the mandatory columns\<close>

text \<open>
  The fifteen mandatory columns of \<^verbatim>\<open>check_units\<close> for units of the given names and
  zones, all of them gas units of 100 MW with admissible values.
\<close>

definition mandatory_columns :: "string list \<Rightarrow> string list \<Rightarrow> (string \<times> cell list) list" where
  "mandatory_columns names zones =
     [(''Unit'', map Str names),
      (''Fuel'', map (\<lambda>_. Str ''GAS'') names),
      (''Zone'', map Str zones),
      (''Technology'', map (\<lambda>_. Str ''COMC'') names),
      (''PowerCapacity'', map (\<lambda>_. Num (Fin 100)) names),
      (''PartLoadMin'', map (\<lambda>_. Num (Fin 0.4)) names),
      (''RampUpRate'', map (\<lambda>_. Num (Fin 0.02)) names),
      (''RampDownRate'', map (\<lambda>_. Num (Fin 0.02)) names),
      (''StartUpTime'', map (\<lambda>_. Num (Fin 1)) names),
      (''MinUpTime'', map (\<lambda>_. Num (Fin 1)) names),
      (''MinDownTime'', map (\<lambda>_. Num (Fin 1)) names),
      (''NoLoadCost'', map (\<lambda>_. Num (Fin 0)) names),
      (''StartUpCost'', map (\<lambda>_. Num (Fin 0)) names),
      (''Efficiency'', map (\<lambda>_. Num (Fin 0.5)) names),
      (''CO2Intensity'', map (\<lambda>_. Num (Fin 0.3)) names)]"

text \<open>One unit, and no column \<^verbatim>\<open>RampingCost\<close>.\<close>

definition unit_without_RampingCost :: units where
  "unit_without_RampingCost =
     \<lparr> index = [Num (Fin 0)], columns = mandatory_columns [''U1''] [''Z1''] \<rparr>"

text \<open>Three units with the column \<^verbatim>\<open>RampingCost\<close>; the first and the third have the same name.\<close>

definition units_same_name :: units where
  "units_same_name =
     \<lparr> index = [Num (Fin 0), Num (Fin 1), Num (Fin 2)],
       columns = mandatory_columns [''A'', ''B'', ''A''] [''Z1'', ''Z2'', ''Z3'']
                 @ [(''RampingCost'', [Num (Fin 0), Num (Fin 0), Num (Fin 0)])] \<rparr>"

text \<open>
  The same three units without the column \<^verbatim>\<open>Zone\<close>, and with the fifteen mandatory
  columns only.
\<close>

definition units_same_name_without_Zone :: units where
  "units_same_name_without_Zone =
     \<lparr> index = [Num (Fin 0), Num (Fin 1), Num (Fin 2)],
       columns = filter (\<lambda>kc. fst kc \<noteq> ''Zone'')
                   (mandatory_columns [''A'', ''B'', ''A''] [''Z1'', ''Z2'', ''Z3''])
                 @ [(''RampingCost'', [Num (Fin 0), Num (Fin 0), Num (Fin 0)])] \<rparr>"

definition units_same_name_without_RampingCost :: units where
  "units_same_name_without_RampingCost =
     \<lparr> index = [Num (Fin 0), Num (Fin 1), Num (Fin 2)],
       columns = mandatory_columns [''A'', ''B'', ''A''] [''Z1'', ''Z2'', ''Z3''] \<rparr>"

text \<open>A column of numbers, none of them \<^verbatim>\<open>nan\<close>.\<close>

definition numbers_given :: "units \<Rightarrow> string \<Rightarrow> bool" where
  "numbers_given plants key =
     (case col plants key of
        Inl e \<Rightarrow> False
      | Inr c \<Rightarrow> list_all (\<lambda>v. \<not> is_str v \<and> \<not> isnull v) c)"

section \<open>Units and availability factors\<close>





section \<open>A heat demand\<close>


section \<open>Tables of units given by their rows\<close>

text \<open>
  The five fields that \<^verbatim>\<open>check_clustering\<close> reads, for one unit: two names and
  three numbers, any of which may be \<^verbatim>\<open>nan\<close> (as the storage capacity of a unit
  without storage is) or infinite.
\<close>

record unit_row =
  row_Technology :: string
  row_Fuel :: string
  row_PowerCapacity :: num
  row_Nunits :: num
  row_STOCapacity :: num

text \<open>The table is well formed and its five columns hold the fields of the rows, in order.\<close>

definition holds_rows :: "units \<Rightarrow> unit_row list \<Rightarrow> bool" where
  "holds_rows t rows =
     (wf_frame t \<and>
      attr t ''Technology'' = Inr (map (\<lambda>r. Str (row_Technology r)) rows) \<and>
      attr t ''Fuel'' = Inr (map (\<lambda>r. Str (row_Fuel r)) rows) \<and>
      attr t ''PowerCapacity'' = Inr (map (\<lambda>r. Num (row_PowerCapacity r)) rows) \<and>
      attr t ''Nunits'' = Inr (map (\<lambda>r. Num (row_Nunits r)) rows) \<and>
      attr t ''STOCapacity'' = Inr (map (\<lambda>r. Num (row_STOCapacity r)) rows))"

text \<open>
  The total installed capacity of a technology and fuel: the sum of
  \<^verbatim>\<open>PowerCapacity\<close> times \<^verbatim>\<open>Nunits\<close> over the rows of that technology and fuel,
  as the floating-point arithmetic and summation compute it.
\<close>

definition capacity :: "rounding \<Rightarrow> summation \<Rightarrow> unit_row list \<Rightarrow> string \<times> string \<Rightarrow> num" where
  "capacity fl series_sum rows tf =
     series_sum (map (\<lambda>r. nmul fl (row_PowerCapacity r) (row_Nunits r))
              (filter (\<lambda>r. (row_Technology r, row_Fuel r) = tf) rows))"

text \<open>
  The total storage capacity: the sum of \<^verbatim>\<open>STOCapacity\<close> times \<^verbatim>\<open>Nunits\<close> over the
  rows of a storage technology (\<^verbatim>\<open>isStorage\<close>), computed in the same way.
\<close>

definition storage_capacity :: "rounding \<Rightarrow> summation \<Rightarrow> unit_row list \<Rightarrow> num" where
  "storage_capacity fl series_sum rows =
     series_sum (map (\<lambda>r. nmul fl (row_STOCapacity r) (row_Nunits r))
              (filter (\<lambda>r. isStorage (Str (row_Technology r))) rows))"

text \<open>The table of the given rows, with the default row labels 0, 1, ...\<close>

definition table_of_rows :: "unit_row list \<Rightarrow> units" where
  "table_of_rows rows =
     \<lparr> index = map (\<lambda>i. Num (Fin (real i))) [0..<length rows],
       columns =
         [(''Technology'', map (\<lambda>r. Str (row_Technology r)) rows),
          (''Fuel'', map (\<lambda>r. Str (row_Fuel r)) rows),
          (''PowerCapacity'', map (\<lambda>r. Num (row_PowerCapacity r)) rows),
          (''Nunits'', map (\<lambda>r. Num (row_Nunits r)) rows),
          (''STOCapacity'', map (\<lambda>r. Num (row_STOCapacity r)) rows)] \<rparr>"

definition unit_of :: "string \<Rightarrow> string \<Rightarrow> real \<Rightarrow> num \<Rightarrow> unit_row" where
  "unit_of technology fuel capacity_MW storage_MWh =
     \<lparr> row_Technology = technology, row_Fuel = fuel, row_PowerCapacity = Fin capacity_MW,
       row_Nunits = Fin 1, row_STOCapacity = storage_MWh \<rparr>"

text \<open>Two gas units of 100 and 50, and one clustered gas unit of the given capacity.\<close>

definition two_gas_units :: "unit_row list" where
  "two_gas_units = [unit_of ''GAS'' ''NG'' 100 NaN, unit_of ''GAS'' ''NG'' 50 NaN]"

definition clustered_gas_unit :: "real \<Rightarrow> unit_row list" where
  "clustered_gas_unit capacity_MW = [unit_of ''GAS'' ''NG'' capacity_MW NaN]"

text \<open>
  The test of line 71, \<^verbatim>\<open>np.abs(P_old - P_new)/(P_old + 0.0001) > 0.01\<close>, on the
  total installed capacities of a technology and fuel in the original rows and in the
  clustered rows.
\<close>

definition capacity_differs ::
  "rounding \<Rightarrow> summation \<Rightarrow> unit_row list \<Rightarrow> unit_row list \<Rightarrow> string \<times> string \<Rightarrow> bool" where
  "capacity_differs fl series_sum rows rows' tf =
     differs fl (capacity fl series_sum rows tf) (capacity fl series_sum rows' tf)"

text \<open>The pairs of technology and fuel of the rows.\<close>

definition pairs_of :: "unit_row list \<Rightarrow> (string \<times> string) list" where
  "pairs_of rows = map (\<lambda>r. (row_Technology r, row_Fuel r)) rows"

text \<open>
  A gas unit of 0.0001 MW, and a hydro unit of 100 MW with a reservoir of the given
  storage capacity.
\<close>

definition small_gas_unit :: "unit_row list" where
  "small_gas_unit = [unit_of ''GAS'' ''NG'' 0.0001 NaN]"

definition hydro_unit :: "real \<Rightarrow> unit_row list" where
  "hydro_unit storage_MWh = [unit_of ''HDAM'' ''WAT'' 100 (Fin storage_MWh)]"

section \<open>Evaluating the model\<close>

lemmas comp_defs =
  ret_def raise_def sys_exit_def lift_def fatal_def log_format_def log_concat_def

lemmas frame_defs = has_col_def loc_def col_def attr_def field_def row_numbers_def

lemmas num_defs = ngt_def nle_def nge_def nsub_def exact_def

lemmas chp_defs =
  check_chp_def chp_fields_def chp_nonnan_def unitname_of_def chp_strkeys_def chp_unit_def
  chp_type_lower_def lower_def lower_char_def chained_gt_def chp_extraction_MaxHeat_def
  chp_efficiency_def chp_Fuel_numerator_def chp_TotalEfficiency_def chp_maxheat_warnings_def
  chp_storage_warnings_def chp_selfdischarge_def read_local_def

text \<open>
  The chained comparison \<^verbatim>\<open>0 > x > b\<close> is false for every number when \<open>b\<close> is not
  negative: no number is below 0 and above \<open>b\<close>.
\<close>

lemma chained_gt_never:
  "0 \<le> b \<Longrightarrow> chained_gt (Fin 0) (Num x) (Fin b) = Inr False"
  by (cases x) (auto simp: chained_gt_def ngt_def split: bool.splits)

lemmas units_defs =
  check_units_def units_columns_def units_Nunits_def units_fields_def units_nonnan_def
  units_strkeys_def units_unique_def units_lower_def units_lower_hard_def units_higher_def
  units_higher_time_def range_check_def horizon_hours_def Nunits_keys_def units_keys_def
  units_NonNaNKeys_def units_StrKeys_def mask_select_def duplicated_def

section \<open>Sequencing, loops and lookups\<close>

lemma andthen_ret [simp]: "andthen (ret x) f = f x"
  by (cases "f x") (simp add: ret_def)

lemma andthen_stop_iff:
  "andthen c f = (l, Inr y) \<longleftrightarrow>
     (\<exists>l1 x l2. c = (l1, Inr x) \<and> f x = (l2, Inr y) \<and> l = l1 @ l2)"
  by (cases c; cases "snd c") (auto split: prod.splits)

lemma fatal_not_returned [simp]: "fatal lv m args \<noteq> (l, Inr y)"
  by (auto simp: fatal_def log_concat_def raise_def sys_exit_def)

lemma for_each_ret:
  "(\<And>x. x \<in> set xs \<Longrightarrow> f x = ret ()) \<Longrightarrow> for_each f xs = ret ()"
  by (induction xs) simp_all

lemma for_each_returned:
  "for_each f xs = (l, Inr ()) \<Longrightarrow> x \<in> set xs \<Longrightarrow> \<exists>l'. f x = (l', Inr ())"
proof (induction xs arbitrary: l)
  case Nil
  then show ?case by simp
next
  case (Cons a xs)
  from Cons.prems(1) obtain l1 l2 where a: "f a = (l1, Inr ())" and rest: "for_each f xs = (l2, Inr ())"
    by (auto simp: andthen_stop_iff)
  show ?case
  proof (cases "x = a")
    case True
    with a show ?thesis by blast
  next
    case False
    with Cons.prems(2) have "x \<in> set xs" by simp
    with Cons.IH [OF rest] show ?thesis by blast
  qed
qed

lemma position_Some:
  "u \<in> set xs \<Longrightarrow> \<exists>i. position u xs = Some i \<and> i < length xs \<and> xs ! i = u"
  by (induction xs) auto

lemma position_nth:
  "distinct xs \<Longrightarrow> i < length xs \<Longrightarrow> position (xs ! i) xs = Some i"
proof (induction xs arbitrary: i)
  case Nil
  then show ?case by simp
next
  case (Cons a xs)
  then show ?case by (cases i) auto
qed

lemma wf_frame_length:
  "wf_frame t \<Longrightarrow> map_of (columns t) key = Some c \<Longrightarrow> length c = length (index t)"
  by (auto simp: wf_frame_def list_all_iff dest!: map_of_SomeD)

lemma loc_in_column:
  assumes "wf_frame t" "map_of (columns t) key = Some c" "u \<in> set (index t)"
  shows "\<exists>v \<in> set c. loc t u key = Inr v"
proof -
  from position_Some [OF assms(3)] obtain i
    where i: "position u (index t) = Some i" "i < length (index t)" by blast
  moreover have "length c = length (index t)" using assms(1,2) by (rule wf_frame_length)
  ultimately show ?thesis using assms(2) by (auto simp: loc_def)
qed

lemma loc_nth:
  assumes "wf_frame t" "map_of (columns t) key = Some c" "i < length (index t)"
  shows "loc t (index t ! i) key = Inr (c ! i)"
proof -
  have "distinct (index t)" using assms(1) by (simp add: wf_frame_def)
  then have "position (index t ! i) (index t) = Some i" using assms(3) by (rule position_nth)
  moreover have "length c = length (index t)" using assms(1,2) by (rule wf_frame_length)
  ultimately show ?thesis using assms(2,3) by (simp add: loc_def)
qed

lemma loc_no_column: "\<not> has_col t key \<Longrightarrow> loc t u key = Inl KeyError"
  by (simp add: has_col_def loc_def)

lemma nonnan_column_passes:
  assumes wf: "wf_frame plants" and ok: "numbers_given plants key"
  shows "for_each (\<lambda>u.
             andthen (lift (loc plants u key)) (\<lambda>v.
             if is_str v
             then fatal CRITICAL
               ''A non numeric value was detected in the power plants inputs for parameter''
               [Lit key]
             else if isnull v
             then fatal CRITICAL
               ''The power plants data is missing for unit number and parameter''
               [StrOf u, Lit key]
             else ret ()))
           (index plants) = ret ()"
proof (rule for_each_ret)
  fix u assume u: "u \<in> set (index plants)"
  from ok obtain c where c: "map_of (columns plants) key = Some c"
    and all: "list_all (\<lambda>v. \<not> is_str v \<and> \<not> isnull v) c"
    by (auto simp: numbers_given_def col_def split: option.splits sum.splits)
  from loc_in_column [OF wf c u] obtain v where v: "v \<in> set c" "loc plants u key = Inr v" by blast
  with all have "\<not> is_str v" "\<not> isnull v" by (auto simp: list_all_iff)
  with v show "andthen (lift (loc plants u key)) (\<lambda>v.
             if is_str v
             then fatal CRITICAL
               ''A non numeric value was detected in the power plants inputs for parameter''
               [Lit key]
             else if isnull v
             then fatal CRITICAL
               ''The power plants data is missing for unit number and parameter''
               [StrOf u, Lit key]
             else ret ()) = ret ()"
    by (simp add: lift_def ret_def)
qed

lemma units_Nunits_log:
  "units_Nunits parse plants = (l, Inr ()) \<Longrightarrow> list_all (\<lambda>e. fst e = INFO) l"
  by (auto simp: units_Nunits_def log_format_def lift_def ret_def raise_def andthen_stop_iff
      split: if_splits sum.splits)


section \<open>The names that occur more than once\<close>

lemma mask_select_Cons [simp]:
  "mask_select (x # xs) (b # bs) = (if b then x # mask_select xs bs else mask_select xs bs)"
  by (simp add: mask_select_def)

lemma mask_select_Nil [simp]: "mask_select [] bs = []"
  by (simp add: mask_select_def)

lemma set_duplicated_from:
  "set (mask_select xs (duplicated_from seen xs)) =
     {n \<in> set xs. n \<in> set seen \<or> 1 < count_list xs n}"
proof (induction xs arbitrary: seen)
  case Nil
  then show ?case by simp
next
  case (Cons x xs)
  have pos: "\<And>n. n \<in> set xs \<longleftrightarrow> 0 < count_list xs n"
    by (simp add: count_list_0_iff zero_less_iff_neq_zero)
  show ?case
    by (auto simp: Cons.IH pos)
qed

lemma set_duplicates:
  "set (mask_select xs (duplicated xs)) = {n. 1 < count_list xs n}"
proof -
  have "\<And>n. 1 < count_list xs n \<Longrightarrow> n \<in> set xs"
    by (metis count_list_0_iff not_one_less_zero)
  then show ?thesis by (auto simp: duplicated_def set_duplicated_from)
qed

lemma not_distinct_count: "\<not> distinct xs \<longleftrightarrow> (\<exists>n. 1 < count_list xs n)"
proof (induction xs)
  case Nil
  then show ?case by simp
next
  case (Cons x xs)
  have pos: "\<And>n. n \<in> set xs \<longleftrightarrow> 0 < count_list xs n"
    by (simp add: count_list_0_iff zero_less_iff_neq_zero)
  show ?case
  proof
    assume "\<not> distinct (x # xs)"
    then consider "x \<in> set xs" | "\<not> distinct xs" by auto
    then show "\<exists>n. 1 < count_list (x # xs) n"
    proof cases
      case 1
      then have "1 < count_list (x # xs) x" by (simp add: pos)
      then show ?thesis ..
    next
      case 2
      with Cons.IH obtain n where "1 < count_list xs n" by blast
      then have "1 < count_list (x # xs) n" by simp
      then show ?thesis ..
    qed
  next
    assume "\<exists>n. 1 < count_list (x # xs) n"
    then obtain n where n: "1 < count_list (x # xs) n" ..
    show "\<not> distinct (x # xs)"
    proof (cases "x = n")
      case True
      with n have "x \<in> set xs" by (simp add: pos)
      then show ?thesis by simp
    next
      case False
      with n have "1 < count_list xs n" by simp
      with Cons.IH show ?thesis by auto
    qed
  qed
qed

lemma remdups_length_distinct: "length (remdups xs) \<noteq> length xs \<longleftrightarrow> \<not> distinct xs"
  by (metis distinct_remdups length_remdups_eq remdups_id_iff_distinct)

lemma cell_eq_Str [simp]: "cell_eq n (Str s) = (n = Str s)"
  by (cases n) auto

lemma mask_select_filter:
  "length xs = length ys \<Longrightarrow>
   mask_select ys (map P xs) = map snd (filter (\<lambda>p. P (fst p)) (zip xs ys))"
  by (induction xs ys rule: list_induct2) auto

section \<open>What the column checks of \<^verbatim>\<open>check_units\<close> establish\<close>

lemma units_columns_returned:
  assumes "units_columns parse plants = (l, Inr ())"
  shows "\<exists>l1 l2. units_fields plants = (l1, Inr ()) \<and> units_strkeys plants = (l2, Inr ())"
  using assms by (auto simp: units_columns_def andthen_stop_iff)

lemma units_fields_has_col:
  assumes "units_fields plants = (l, Inr ())" and "key \<in> set units_keys"
  shows "has_col plants key"
proof (rule ccontr)
  assume no: "\<not> has_col plants key"
  from assms(2) have "key \<in> set (units_keys @ Nunits_keys plants)" by simp
  from for_each_returned [OF assms(1) [unfolded units_fields_def] this]
  show False using no by simp
qed

lemma units_strkeys_str:
  assumes wf: "wf_frame plants"
    and ret: "units_strkeys plants = (l, Inr ())"
    and key: "key \<in> set units_StrKeys"
    and c: "map_of (columns plants) key = Some c"
  shows "list_all is_str c"
proof -
  from for_each_returned [OF ret [unfolded units_strkeys_def] key]
  obtain l' where inner: "for_each (\<lambda>u.
             andthen (lift (loc plants u key)) (\<lambda>v.
             if \<not> is_str v
             then fatal CRITICAL
               ''A numeric value was detected in the power plants inputs for parameter. This column should contain strings only.''
               [Lit key]
             else if v = Str []
             then fatal CRITICAL
               ''An empty value was detected in the power plants inputs for unit and parameter''
               [StrOf u, Lit key]
             else ret ()))
           (index plants) = (l', Inr ())" by blast
  have len: "length c = length (index plants)" using wf c by (rule wf_frame_length)
  have "is_str (c ! i)" if i: "i < length c" for i
  proof -
    from i len have mem: "index plants ! i \<in> set (index plants)" by simp
    from i len have loc: "loc plants (index plants ! i) key = Inr (c ! i)"
      using loc_nth [OF wf c] by simp
    from for_each_returned [OF inner mem] show ?thesis
      by (auto simp: loc lift_def split: if_splits)
  qed
  then show ?thesis by (auto simp: list_all_iff in_set_conv_nth)
qed


section \<open>The loop of \<^verbatim>\<open>check_AvailabilityFactors\<close>\<close>





lemma for_each_first_stop:
  assumes "\<forall>y \<in> set pre. \<exists>l. f y = (l, Inr ()) \<and> list_all Q l"
    and "f x = (lx, Inl s)"
  shows "\<exists>l. for_each f (pre @ x # post) = (l @ lx, Inl s) \<and> list_all Q l"
  using assms(1)
proof (induction pre)
  case Nil
  show ?case using assms(2) by simp
next
  case (Cons a pre)
  from Cons.prems obtain la where a: "f a = (la, Inr ())" "list_all Q la" by auto
  from Cons.IH Cons.prems obtain l
    where l: "for_each f (pre @ x # post) = (l @ lx, Inl s)" "list_all Q l" by auto
  have "for_each f ((a # pre) @ x # post) = ((la @ l) @ lx, Inl s)"
    by (simp add: a l)
  moreover have "list_all Q (la @ l)" using a l by simp
  ultimately show ?case by blast
qed



section \<open>The sums of \<^verbatim>\<open>check_clustering\<close> on a table given by its rows\<close>

lemma map_exn_Inr:
  "(\<And>x. x \<in> set xs \<Longrightarrow> f x = Inr (g x)) \<Longrightarrow> map_exn f xs = Inr (map g xs)"
  by (induction xs) simp_all

lemma set_drop_duplicates_from:
  "set (drop_duplicates_from seen xs) = set xs - set seen"
  by (induction xs arbitrary: seen) auto

lemma set_drop_duplicates [simp]: "set (drop_duplicates xs) = set xs"
  by (simp add: drop_duplicates_def set_drop_duplicates_from)

lemma holds_rows_length:
  assumes "holds_rows t rows"
  shows "length (index t) = length rows"
proof -
  from assms have wf: "wf_frame t"
    and T: "map_of (columns t) ''Technology'' = Some (map (\<lambda>r. Str (row_Technology r)) rows)"
    by (auto simp: holds_rows_def attr_def split: option.splits)
  from wf_frame_length [OF wf T] show ?thesis by simp
qed

lemma tech_fuel_pairs_rows:
  assumes "holds_rows t rows"
  shows "tech_fuel_pairs t =
           Inr (drop_duplicates (map (\<lambda>r. (Str (row_Technology r), Str (row_Fuel r))) rows))"
proof -
  from assms have wf: "wf_frame t"
    and T: "attr t ''Technology'' = Inr (map (\<lambda>r. Str (row_Technology r)) rows)"
    and F: "attr t ''Fuel'' = Inr (map (\<lambda>r. Str (row_Fuel r)) rows)"
    by (simp_all add: holds_rows_def)
  have len: "length (index t) = length rows" using assms by (rule holds_rows_length)
  have dist: "distinct (index t)" using wf by (simp add: wf_frame_def)
  define g where "g = (\<lambda>idx. (case position idx (index t) of
       None \<Rightarrow> (Str [], Str [])
     | Some i \<Rightarrow> (Str (row_Technology (rows ! i)), Str (row_Fuel (rows ! i)))))"
  have "map_exn (\<lambda>idx.
               case attr t ''Technology'' of
                 Inl e \<Rightarrow> Inl e
               | Inr Technology \<Rightarrow>
                   (case attr t ''Fuel'' of
                      Inl e \<Rightarrow> Inl e
                    | Inr Fuel \<Rightarrow>
                        (case position idx (index t) of
                           None \<Rightarrow> Inl KeyError
                         | Some i \<Rightarrow>
                             if i < length Technology \<and> i < length Fuel
                             then Inr (Technology ! i, Fuel ! i) else Inl KeyError)))
             (index t) = Inr (map g (index t))"
  proof (rule map_exn_Inr)
    fix idx assume "idx \<in> set (index t)"
    from position_Some [OF this] obtain i
      where i: "position idx (index t) = Some i" "i < length (index t)" by blast
    then show "(case attr t ''Technology'' of
                 Inl e \<Rightarrow> Inl e
               | Inr Technology \<Rightarrow>
                   (case attr t ''Fuel'' of
                      Inl e \<Rightarrow> Inl e
                    | Inr Fuel \<Rightarrow>
                        (case position idx (index t) of
                           None \<Rightarrow> Inl KeyError
                         | Some i \<Rightarrow>
                             if i < length Technology \<and> i < length Fuel
                             then Inr (Technology ! i, Fuel ! i) else Inl KeyError))) = Inr (g idx)"
      by (simp add: T F g_def len)
  qed
  moreover have "map g (index t) = map (\<lambda>r. (Str (row_Technology r), Str (row_Fuel r))) rows"
  proof (rule nth_equalityI)
    show "length (map g (index t)) = length (map (\<lambda>r. (Str (row_Technology r), Str (row_Fuel r))) rows)"
      by (simp add: len)
  next
    fix i assume "i < length (map g (index t))"
    then have i: "i < length (index t)" by simp
    with dist have "position (index t ! i) (index t) = Some i" by (rule position_nth)
    with i show "map g (index t) ! i = map (\<lambda>r. (Str (row_Technology r), Str (row_Fuel r))) rows ! i"
      by (simp add: g_def len)
  qed
  ultimately show ?thesis by (simp add: tech_fuel_pairs_def)
qed

lemma products_rows:
  "map_exn (\<lambda>(p, n). cell_op (nmul fl) p n)
      (zip (mask_select (map (\<lambda>r. Num (a r)) rows) (map sel rows))
           (mask_select (map (\<lambda>r. Num (b r)) rows) (map sel rows)))
   = Inr (map (\<lambda>r. nmul fl (a r) (b r)) (filter sel rows))"
  by (induction rows) simp_all

lemma installed_capacity_rows:
  assumes "holds_rows t rows"
  shows "installed_capacity fl series_sum t (Str a, Str b) = Inr (capacity fl series_sum rows (a, b))"
proof -
  from assms
  have T: "attr t ''Technology'' = Inr (map (\<lambda>r. Str (row_Technology r)) rows)"
    and F: "attr t ''Fuel'' = Inr (map (\<lambda>r. Str (row_Fuel r)) rows)"
    and P: "attr t ''PowerCapacity'' = Inr (map (\<lambda>r. Num (row_PowerCapacity r)) rows)"
    and N: "attr t ''Nunits'' = Inr (map (\<lambda>r. Num (row_Nunits r)) rows)"
    by (simp_all add: holds_rows_def)
  have sel: "map (\<lambda>(x, y). cell_eq x (Str a) \<and> cell_eq y (Str b))
               (zip (map (\<lambda>r. Str (row_Technology r)) rows) (map (\<lambda>r. Str (row_Fuel r)) rows))
             = map (\<lambda>r. (row_Technology r, row_Fuel r) = (a, b)) rows"
    by (induction rows) simp_all
  show ?thesis
    unfolding installed_capacity_def T F P N
    by (simp add: sel products_rows capacity_def del: cell_eq_Str)
qed

lemma clustering_pair_rows:
  assumes old: "holds_rows plants rows" and new: "holds_rows plants_merged rows'"
  shows "clustering_pair fl series_sum plants plants_merged (Str a, Str b) =
     (if capacity_differs fl series_sum rows rows' (a, b)
      then ([(ERROR,
              ''The installed capacity for technology and fuel is not equal between the original units table (P = ) and the clustered table (P = )'',
              [Val (Str a), Val (Str b), StrNum (capacity fl series_sum rows (a, b)),
               StrNum (capacity fl series_sum rows' (a, b))])],
            Inl (SysExit 1))
      else ret ())"
proof -
  from old
  have T: "attr plants ''Technology'' = Inr (map (\<lambda>r. Str (row_Technology r)) rows)"
    and F: "attr plants ''Fuel'' = Inr (map (\<lambda>r. Str (row_Fuel r)) rows)"
    by (simp_all add: holds_rows_def)
  from new
  have T': "attr plants_merged ''Technology'' = Inr (map (\<lambda>r. Str (row_Technology r)) rows')"
    and F': "attr plants_merged ''Fuel'' = Inr (map (\<lambda>r. Str (row_Fuel r)) rows')"
    by (simp_all add: holds_rows_def)
  show ?thesis
    unfolding clustering_pair_def T F T' F'
      installed_capacity_rows [OF old] installed_capacity_rows [OF new]
    by (simp add: lift_def capacity_differs_def fatal_def log_concat_def sys_exit_def)
qed

lemma isstorage_rows_rows:
  assumes "holds_rows t rows"
  shows "isstorage_rows t = Inr (map (\<lambda>r. Str (row_Technology r) \<in> set List_tech_storage) rows)"
proof -
  from assms
  have T: "attr t ''Technology'' = Inr (map (\<lambda>r. Str (row_Technology r)) rows)"
    by (simp add: holds_rows_def)
  have "index t = [] \<Longrightarrow> rows = []" using holds_rows_length [OF assms] by simp
  then show ?thesis by (auto simp: isstorage_rows_def T comp_def)
qed

lemma TotalStorage_rows:
  assumes "holds_rows t rows"
  shows "TotalStorage fl series_sum t (map sel rows) =
     Inr (series_sum (map (\<lambda>r. nmul fl (row_STOCapacity r) (row_Nunits r)) (filter sel rows)))"
proof -
  from assms
  have S: "attr t ''STOCapacity'' = Inr (map (\<lambda>r. Num (row_STOCapacity r)) rows)"
    and N: "attr t ''Nunits'' = Inr (map (\<lambda>r. Num (row_Nunits r)) rows)"
    by (simp_all add: holds_rows_def)
  show ?thesis
    unfolding TotalStorage_def S N by (simp add: products_rows)
qed

lemma storage_rows_without_P2GS:
  assumes "list_all (\<lambda>r. row_Technology r \<noteq> ''P2GS'') rows"
  shows "filter (\<lambda>r. Str (row_Technology r) \<in> set List_tech_storage) rows
         = filter (\<lambda>r. isStorage (Str (row_Technology r))) rows"
  using assms by (induction rows) (auto simp: List_tech_storage_def isStorage_def)

lemma clustering_loop_pass:
  assumes old: "holds_rows plants rows" and new: "holds_rows plants_merged rows'"
    and within: "\<not> (\<exists>tf \<in> set (pairs_of rows). capacity_differs fl series_sum rows rows' tf)"
  shows "for_each (clustering_pair fl series_sum plants plants_merged)
           (drop_duplicates (map (\<lambda>r. (Str (row_Technology r), Str (row_Fuel r))) rows)) = ret ()"
proof (rule for_each_ret)
  fix x
  assume "x \<in> set (drop_duplicates (map (\<lambda>r. (Str (row_Technology r), Str (row_Fuel r))) rows))"
  then obtain r where r: "r \<in> set rows" and x: "x = (Str (row_Technology r), Str (row_Fuel r))"
    by auto
  from r have "(row_Technology r, row_Fuel r) \<in> set (pairs_of rows)"
    by (auto simp: pairs_of_def)
  with within have "\<not> capacity_differs fl series_sum rows rows' (row_Technology r, row_Fuel r)" by auto
  then show "clustering_pair fl series_sum plants plants_merged x = ret ()"
    unfolding x clustering_pair_rows [OF old new] by simp
qed

lemma clustering_loop_stop:
  assumes old: "holds_rows plants rows" and new: "holds_rows plants_merged rows'"
    and exceeds: "\<exists>tf \<in> set (pairs_of rows). capacity_differs fl series_sum rows rows' tf"
  shows "\<exists>tf. tf \<in> set (pairs_of rows) \<and> capacity_differs fl series_sum rows rows' tf \<and>
           for_each (clustering_pair fl series_sum plants plants_merged)
             (drop_duplicates (map (\<lambda>r. (Str (row_Technology r), Str (row_Fuel r))) rows)) =
           ([(ERROR,
              ''The installed capacity for technology and fuel is not equal between the original units table (P = ) and the clustered table (P = )'',
              [Val (Str (fst tf)), Val (Str (snd tf)), StrNum (capacity fl series_sum rows tf),
               StrNum (capacity fl series_sum rows' tf)])],
            Inl (SysExit 1))"
proof -
  define pairs where
    "pairs = drop_duplicates (map (\<lambda>r. (Str (row_Technology r), Str (row_Fuel r))) rows)"
  define f where "f = clustering_pair fl series_sum plants plants_merged"
  define entry where "entry = (\<lambda>tf. (ERROR,
              ''The installed capacity for technology and fuel is not equal between the original units table (P = ) and the clustered table (P = )'',
              [Val (Str (fst tf)), Val (Str (snd tf)), StrNum (capacity fl series_sum rows tf),
               StrNum (capacity fl series_sum rows' tf)]))"
  define bad where "bad = (\<lambda>x. \<exists>tf. x = (Str (fst tf), Str (snd tf)) \<and> capacity_differs fl series_sum rows rows' tf)"
  have form: "\<exists>tf. tf \<in> set (pairs_of rows) \<and> x = (Str (fst tf), Str (snd tf))"
    if "x \<in> set pairs" for x
    using that by (auto simp: pairs_def pairs_of_def)
  have step: "f (Str (fst tf), Str (snd tf)) =
      (if capacity_differs fl series_sum rows rows' tf then ([entry tf], Inl (SysExit 1)) else ret ())" for tf
    using clustering_pair_rows [OF old new, of fl series_sum "fst tf" "snd tf"]
    by (simp add: f_def entry_def)
  from exceeds obtain tf0 where "tf0 \<in> set (pairs_of rows)" "capacity_differs fl series_sum rows rows' tf0"
    by auto
  then have "\<exists>x \<in> set pairs. bad x"
    by (auto simp: pairs_def pairs_of_def bad_def intro!: bexI)
  from split_list_first_prop [OF this] obtain pre x post
    where split: "pairs = pre @ x # post" and x: "bad x" and before: "\<forall>y \<in> set pre. \<not> bad y"
    by auto
  from x obtain tf where tf: "x = (Str (fst tf), Str (snd tf))" "capacity_differs fl series_sum rows rows' tf"
    by (auto simp: bad_def)
  have "x \<in> set pairs" by (simp add: split)
  from form [OF this] tf(1) have mem: "tf \<in> set (pairs_of rows)"
    by (auto simp: prod_eq_iff)
  have stop: "f x = ([entry tf], Inl (SysExit 1))"
    unfolding tf(1) step using tf(2) by simp
  have earlier: "\<forall>y \<in> set pre. \<exists>l. f y = (l, Inr ()) \<and> list_all (\<lambda>e. False) l"
  proof
    fix y assume y: "y \<in> set pre"
    then have "y \<in> set pairs" by (simp add: split)
    from form [OF this] obtain tf' where y': "y = (Str (fst tf'), Str (snd tf'))" by auto
    with before y have "\<not> capacity_differs fl series_sum rows rows' tf'" by (auto simp: bad_def)
    then have "f y = ([], Inr ())" unfolding y' step by (simp add: ret_def)
    then show "\<exists>l. f y = (l, Inr ()) \<and> list_all (\<lambda>e. False) l" by simp
  qed
  have "\<exists>l. for_each f (pre @ x # post) = (l @ [entry tf], Inl (SysExit 1))
          \<and> list_all (\<lambda>e. False) l"
    using earlier stop by (rule for_each_first_stop)
  then obtain l where both: "for_each f (pre @ x # post) = (l @ [entry tf], Inl (SysExit 1))
          \<and> list_all (\<lambda>e. False) l" ..
  then have "l = []" by (cases l) simp_all
  with both have "for_each f pairs = ([entry tf], Inl (SysExit 1))" by (simp add: split)
  with mem tf(2) show ?thesis
    unfolding pairs_def f_def entry_def by (intro exI [of _ tf]) simp
qed

lemma check_clustering_stop:
  assumes old: "holds_rows plants rows"
    and loop: "for_each (clustering_pair fl series_sum plants plants_merged)
             (drop_duplicates (map (\<lambda>r. (Str (row_Technology r), Str (row_Fuel r))) rows)) =
           (l, Inl s)"
  shows "check_clustering fl series_sum plants plants_merged = (l, Inl s)"
  by (simp add: check_clustering_def tech_fuel_pairs_rows [OF old] lift_def loop)

lemma check_clustering_pass:
  assumes old: "holds_rows plants rows" and new: "holds_rows plants_merged rows'"
    and loop: "for_each (clustering_pair fl series_sum plants plants_merged)
             (drop_duplicates (map (\<lambda>r. (Str (row_Technology r), Str (row_Fuel r))) rows)) = ret ()"
    and T: "T = series_sum (map (\<lambda>r. nmul fl (row_STOCapacity r) (row_Nunits r))
                 (filter (\<lambda>r. Str (row_Technology r) \<in> set List_tech_storage) rows))"
    and T': "T' = series_sum (map (\<lambda>r. nmul fl (row_STOCapacity r) (row_Nunits r))
                 (filter (\<lambda>r. Str (row_Technology r) \<in> set List_tech_storage) rows'))"
  shows "check_clustering fl series_sum plants plants_merged =
     ((if differs fl T T'
       then [(ERROR,
              ''The total installed storage capacity is not equal between the original units table () and the clustered table ()'',
              [StrNum T, StrNum T'])]
       else []),
      Inr True)"
proof -
  have S: "TotalStorage fl series_sum plants
             (map (\<lambda>r. Str (row_Technology r) \<in> set List_tech_storage) rows) = Inr T"
    unfolding T by (rule TotalStorage_rows [OF old])
  have S': "TotalStorage fl series_sum plants_merged
             (map (\<lambda>r. Str (row_Technology r) \<in> set List_tech_storage) rows') = Inr T'"
    unfolding T' by (rule TotalStorage_rows [OF new])
  show ?thesis
    by (simp add: check_clustering_def tech_fuel_pairs_rows [OF old] lift_def loop
        isstorage_rows_rows [OF old] isstorage_rows_rows [OF new] S S' log_concat_def)
      (simp add: ret_def)
qed

section \<open>The tables in the state of \<^verbatim>\<open>check_heat_demand\<close>\<close>




section \<open>The claims about \<^verbatim>\<open>check_chp\<close>\<close>

text \<open>
  Claim C1, as the code has it.  For a unit of type \<^verbatim>\<open>extraction\<close> with a number
  given as \<^verbatim>\<open>CHPMaxHeat\<close>, the value used in the efficiency computation is the smaller
  of the given value and the quotient \<^verbatim>\<open>PowerCapacity / CHPPowerToHeat\<close> as the
  floating-point division computes it, whatever its rounding: when the given value is
  larger than the computed quotient, the quotient replaces it and a warning is logged;
  when it is smaller or equal, it is kept and nothing is logged.  The body of the loop
  over the units then runs the efficiency computation with that value.
\<close>

theorem check_chp_MaxHeat_is_minimum:
  assumes name: "unitname_of plants u = ret unitname"
    and P: "loc plants u ''PowerCapacity'' = Inr (Num (Fin p))"
    and M: "loc plants u ''CHPMaxHeat'' = Inr (Num (Fin m))"
    and R: "loc plants u ''CHPPowerToHeat'' = Inr (Num (Fin q))"
    and L: "loc plants u ''CHPPowerLossFactor'' = Inr (Num lf)"
    and T: "chp_type_lower plants u = Inr ''extraction''"
    and q: "q \<noteq> 0"
  shows "chp_extraction_MaxHeat fl (Num (Fin p)) (Num (Fin q)) (Num (Fin m)) =
           ((if nlt (fl (p / q)) (Fin m)
             then [(WARNING,
                    ''Given Maximum heat CHPMaxHeat is higher than the intersection point of the two other constraints (power loss factor and backpressure line) therefore it will not be ignored'',
                    [Val (Num (Fin m)), StrNum (fl (p / q))])]
             else []),
            Inr (Num (if nlt (fl (p / q)) (Fin m) then fl (p / q) else Fin m)))
       \<and> chp_unit fl plants previous u =
           andthen (chp_extraction_MaxHeat fl (Num (Fin p)) (Num (Fin q)) (Num (Fin m)))
             (\<lambda>MaxHeat.
           andthen (chp_efficiency fl plants u unitname (Num (Fin p)) (Num lf) MaxHeat) (\<lambda>_.
           ret (Some unitname)))"
proof
  show "chp_extraction_MaxHeat fl (Num (Fin p)) (Num (Fin q)) (Num (Fin m)) =
           ((if nlt (fl (p / q)) (Fin m)
             then [(WARNING,
                    ''Given Maximum heat CHPMaxHeat is higher than the intersection point of the two other constraints (power loss factor and backpressure line) therefore it will not be ignored'',
                    [Val (Num (Fin m)), StrNum (fl (p / q))])]
             else []),
            Inr (Num (if nlt (fl (p / q)) (Fin m) then fl (p / q) else Fin m)))"
    using q by (simp add: chp_extraction_MaxHeat_def comp_defs)
next
  have ty: "\<exists>s. loc plants u ''CHPType'' = Inr (Str s)"
    using T by (auto simp: chp_type_lower_def split: sum.splits cell.splits)
  then obtain s where s: "loc plants u ''CHPType'' = Inr (Str s)" ..
  show "chp_unit fl plants previous u =
           andthen (chp_extraction_MaxHeat fl (Num (Fin p)) (Num (Fin q)) (Num (Fin m)))
             (\<lambda>MaxHeat.
           andthen (chp_efficiency fl plants u unitname (Num (Fin p)) (Num lf) MaxHeat) (\<lambda>_.
           ret (Some unitname)))"
    unfolding chp_unit_def name P M R L T s
    by (simp add: comp_defs chained_gt_never)
qed

text \<open>
  The theorem at the unit of \<open>chp_table\<close> with \<^verbatim>\<open>CHPMaxHeat = 80\<close>, above the derived
  value 50, computed without rounding: the warning is logged and the efficiency is
  computed with 50.
\<close>

theorem check_chp_MaxHeat_is_minimum_witness:
  "chp_unit exact (chp_table ''extraction'' 100 2 0.4 0.15 (Fin 80)) None (Num (Fin 0)) =
     ([(WARNING,
        ''Given Maximum heat CHPMaxHeat is higher than the intersection point of the two other constraints (power loss factor and backpressure line) therefore it will not be ignored'',
        [Val (Num (Fin 80)), StrNum (Fin 50)]),
       (DEBUG, ''Highest overall efficiency of CHP plant is'',
        [Val (Num (Fin 0)), StrNum (Fin (24 / 43))])],
      Inr (Some (Val (Str ''CHP1''))))"
proof -
  let ?T = "chp_table ''extraction'' 100 2 0.4 0.15 (Fin 80)"
  have name: "unitname_of ?T (Num (Fin 0)) = ret (Val (Str ''CHP1''))"
    by (simp add: chp_table_def unitname_of_def comp_defs frame_defs)
  have P: "loc ?T (Num (Fin 0)) ''PowerCapacity'' = Inr (Num (Fin 100))"
    by (simp add: chp_table_def frame_defs)
  have M: "loc ?T (Num (Fin 0)) ''CHPMaxHeat'' = Inr (Num (Fin 80))"
    by (simp add: chp_table_def frame_defs)
  have R: "loc ?T (Num (Fin 0)) ''CHPPowerToHeat'' = Inr (Num (Fin 2))"
    by (simp add: chp_table_def frame_defs)
  have L: "loc ?T (Num (Fin 0)) ''CHPPowerLossFactor'' = Inr (Num (Fin 0.15))"
    by (simp add: chp_table_def frame_defs)
  have T: "chp_type_lower ?T (Num (Fin 0)) = Inr ''extraction''"
    by (simp add: chp_table_def frame_defs chp_type_lower_def lower_def lower_char_def)
  note inst = check_chp_MaxHeat_is_minimum [OF name P M R L T, of exact None]
  have "chp_unit exact ?T None (Num (Fin 0)) =
      andthen (chp_extraction_MaxHeat exact (Num (Fin 100)) (Num (Fin 2)) (Num (Fin 80)))
        (\<lambda>MaxHeat.
      andthen (chp_efficiency exact ?T (Num (Fin 0)) (Val (Str ''CHP1'')) (Num (Fin 100))
                 (Num (Fin 0.15)) MaxHeat) (\<lambda>_.
      ret (Some (Val (Str ''CHP1'')))))"
    using inst by simp
  moreover have "chp_extraction_MaxHeat exact (Num (Fin 100)) (Num (Fin 2)) (Num (Fin 80)) =
      ([(WARNING,
        ''Given Maximum heat CHPMaxHeat is higher than the intersection point of the two other constraints (power loss factor and backpressure line) therefore it will not be ignored'',
        [Val (Num (Fin 80)), StrNum (Fin 50)])], Inr (Num (Fin 50)))"
    using inst by (simp add: exact_def)
  ultimately show ?thesis
    by (simp add: chp_efficiency_def chp_Fuel_numerator_def chp_TotalEfficiency_def chp_table_def
        frame_defs comp_defs num_defs)
qed

text \<open>
  Claim C1 as the specification states it fails.  With \<^verbatim>\<open>CHPMaxHeat = 30\<close>, smaller than
  the derived value 50, no warning is logged and the efficiency is computed with 30, not
  with 50 (the numbers are computed without rounding; 100 / 2 is 50 in floating point too); with \<^verbatim>\<open>CHPMaxHeat = 80\<close>, larger than 50, the given value is not kept.
\<close>

theorem check_chp_smaller_MaxHeat_counterexample:
  "check_chp exact [] (chp_table ''extraction'' 100 2 0.4 0.15 (Fin 30)) =
     ([(DEBUG, ''Highest overall efficiency of CHP plant is'',
        [Val (Num (Fin 0)), StrNum (Fin ((100 + 30) / ((100 + 0.15 * 30) / 0.4)))])],
      Inr True)
   \<and> chp_extraction_MaxHeat exact (Num (Fin 100)) (Num (Fin 2)) (Num (Fin 30)) =
       ([], Inr (Num (Fin 30)))
   \<and> chp_extraction_MaxHeat exact (Num (Fin 100)) (Num (Fin 2)) (Num (Fin 80)) =
       ([(WARNING,
          ''Given Maximum heat CHPMaxHeat is higher than the intersection point of the two other constraints (power loss factor and backpressure line) therefore it will not be ignored'',
          [Val (Num (Fin 80)), StrNum (Fin 50)])],
        Inr (Num (Fin 50)))"
  by (simp add: chp_table_def comp_defs frame_defs chp_defs num_defs)

text \<open>
  Claim C2, at the unit of \<open>chp_storage_table\<close>, computed without rounding.  A
  self-discharge of 25, above 24, only logs the warning of the branch
  \<^verbatim>\<open>> 1\<close>, and \<^verbatim>\<open>check_chp\<close> returns \<^verbatim>\<open>True\<close>: the branch \<^verbatim>\<open>> 24\<close> stands
  after it in the same \<^verbatim>\<open>elif\<close> chain and is never reached.
\<close>

theorem check_chp_selfdischarge_above_24:
  "check_chp exact config (chp_storage_table 25) =
     ([(DEBUG, ''Highest overall efficiency of CHP plant is'',
        [Val (Num (Fin 0)), StrNum (Fin (24 / 43))]),
       (WARNING, ''Unit: The value of the thermal storage self-discharge seems very high'',
        [Val (Str ''CHP1''), StrNum (Fin 2500)])],
      Inr True)"
  by (simp add: chp_storage_table_def comp_defs frame_defs chp_defs num_defs)

text \<open>
  Claim C3.  The test of line 200 is \<^verbatim>\<open>0 > plant_powerlossfactor > 1\<close>, which is false
  for every number, so a loss factor outside of [0, 1) is not refused: an
  \<^verbatim>\<open>extraction\<close> unit with the loss factor 1.5, or -0.5, passes \<^verbatim>\<open>check_chp\<close>.
  The test of line 203 does refuse a \<^verbatim>\<open>back-pressure\<close> unit with the loss factor 0.1,
  but its message is built with \<^verbatim>\<open>+ u +\<close>: with the row label 0, a number, this
  raises \<^verbatim>\<open>TypeError\<close> before anything is logged.
\<close>

theorem check_chp_loss_factor_not_checked:
  "chained_gt (Fin 0) (Num x) (Fin 1) = Inr False
   \<and> check_chp exact config (chp_table ''extraction'' 100 2 0.4 1.5 NaN) =
       ([(DEBUG, ''Highest overall efficiency of CHP plant is'',
          [Val (Num (Fin 0)), StrNum (Fin (12 / 35))])],
        Inr True)
   \<and> check_chp exact config (chp_table ''extraction'' 100 2 0.4 (- 0.5) NaN) =
       ([(DEBUG, ''Highest overall efficiency of CHP plant is'',
          [Val (Num (Fin 0)), StrNum (Fin (4 / 5))])],
        Inr True)
   \<and> check_chp exact config (chp_table ''back-pressure'' 100 2 0.4 0.1 (Fin 50)) =
       ([], Inl (Raised TypeError))"
proof (intro conjI)
  show "chained_gt (Fin 0) (Num x) (Fin 1) = Inr False"
    by (simp add: chained_gt_never)
qed (simp_all add: chp_table_def comp_defs frame_defs chp_defs num_defs)

text \<open>
  Claim C8.  The \<^verbatim>\<open>extraction\<close> unit with \<^verbatim>\<open>PowerCapacity = 100\<close>,
  \<^verbatim>\<open>CHPPowerToHeat = 2\<close>, \<^verbatim>\<open>Efficiency = 0.4\<close>, \<^verbatim>\<open>CHPPowerLossFactor = 0.15\<close> and
  no \<^verbatim>\<open>CHPMaxHeat\<close>: the derived maximum heat is 50, the fuel is
  (100 + 0.15 * 50) / 0.4 = 268.75, the total efficiency is 150 / 268.75, about 0.558,
  and \<^verbatim>\<open>check_chp\<close> returns \<^verbatim>\<open>True\<close> with the debug message as its only log entry:
  no fatal failure and no warning.
\<close>

theorem check_chp_extraction_example:
  "chp_extraction_MaxHeat exact (Num (Fin 100)) (Num (Fin 2)) (Num NaN) = ([], Inr (Num (Fin 50)))
   \<and> chp_Fuel_numerator exact (Num (Fin 100)) (Num (Fin 0.15)) (Num (Fin 50)) = Inr (Fin 107.5)
   \<and> cell_op (ndiv exact) (Num (Fin 107.5)) (Num (Fin 0.4)) = Inr (Fin 268.75)
   \<and> chp_TotalEfficiency exact (Num (Fin 100)) (Num (Fin 50)) (Fin 268.75) = Inr (Fin (150 / 268.75))
   \<and> \<bar>150 / 268.75 - 0.558\<bar> < (0.001 :: real)
   \<and> check_chp exact config (chp_table ''extraction'' 100 2 0.4 0.15 NaN) =
       ([(DEBUG, ''Highest overall efficiency of CHP plant is'',
          [Val (Num (Fin 0)), StrNum (Fin (150 / 268.75))])],
        Inr True)"
  by (simp add: chp_table_def comp_defs frame_defs chp_defs num_defs)

section \<open>The claims about \<^verbatim>\<open>check_units\<close>\<close>

text \<open>
  Claim C9, as the code has it.  Take a table of units whose rows and columns are well
  formed, and that passes the checks of the columns that \<^verbatim>\<open>check_units\<close> runs
  before the test of the names (lines 266 to 299).  When some name occurs more than once
  in the column \<^verbatim>\<open>Unit\<close>, \<^verbatim>\<open>check_units\<close> logs one more message, at level
  error, and stops with \<^verbatim>\<open>sys.exit(1)\<close>; the message holds the list
  \<^verbatim>\<open>duplicates\<close>, whose entries are exactly the names that occur more than once, its
  first entry, and the zones of the rows that have this first name.  When all names are
  different, the test of the names logs nothing and the check goes on.
\<close>

theorem check_units_unique_names:
  assumes wf: "wf_frame plants"
    and U: "col plants ''Unit'' = Inr Unit"
    and pre: "units_columns parse plants = (l, Inr ())"
  shows "\<exists>Zone duplicates.
           attr plants ''Zone'' = Inr Zone \<and>
           duplicates = mask_select Unit (duplicated Unit) \<and>
           set duplicates = {n. 1 < count_list Unit n} \<and>
           (if distinct Unit
            then units_unique plants = ret ()
            else duplicates \<noteq> [] \<and>
                 check_units parse fl config plants =
                   (l @ [(ERROR,
                          ''The names of the power plants are not unique. The following names are duplicates: . appears for example in the following zones:'',
                          [StrCells duplicates, Val (hd duplicates),
                           StrCells (map snd (filter (\<lambda>row. fst row = hd duplicates)
                                                (zip Unit Zone)))])],
                    Inl (SysExit 1)))"
proof -
  from U have U': "map_of (columns plants) ''Unit'' = Some Unit"
    by (auto simp: col_def split: option.splits)
  from units_columns_returned [OF pre] obtain l1 l2
    where fields: "units_fields plants = (l1, Inr ())"
      and strkeys: "units_strkeys plants = (l2, Inr ())" by blast
  have "has_col plants ''Zone''"
    by (rule units_fields_has_col [OF fields]) (simp add: units_keys_def)
  then obtain Zone where Z: "map_of (columns plants) ''Zone'' = Some Zone"
    by (auto simp: has_col_def)
  define duplicates where "duplicates = mask_select Unit (duplicated Unit)"
  have strs: "list_all is_str Unit"
    by (rule units_strkeys_str [OF wf strkeys _ U']) (simp add: units_StrKeys_def)
  have len: "length Unit = length Zone"
    using wf_frame_length [OF wf U'] wf_frame_length [OF wf Z] by simp
  have set_dup: "set duplicates = {n. 1 < count_list Unit n}"
    unfolding duplicates_def by (rule set_duplicates)
  have main: "duplicates \<noteq> [] \<and>
                 check_units parse fl config plants =
                   (l @ [(ERROR,
                          ''The names of the power plants are not unique. The following names are duplicates: . appears for example in the following zones:'',
                          [StrCells duplicates, Val (hd duplicates),
                           StrCells (map snd (filter (\<lambda>row. fst row = hd duplicates)
                                                (zip Unit Zone)))])],
                    Inl (SysExit 1))" if nd: "\<not> distinct Unit"
  proof -
    from nd have "set duplicates \<noteq> {}" by (auto simp: set_dup not_distinct_count)
    then obtain d ds where dup: "duplicates = d # ds" by (cases duplicates) auto
    then have "d \<in> set duplicates" by simp
    then have "d \<in> set Unit"
      unfolding set_dup by (metis count_list_0_iff mem_Collect_eq not_one_less_zero)
    with strs obtain s where d: "d = Str s" by (cases d) (auto simp: list_all_iff)
    have zones: "mask_select Zone (map (\<lambda>n. cell_eq n d) Unit) =
        map snd (filter (\<lambda>row. fst row = d) (zip Unit Zone))"
      unfolding d cell_eq_Str by (rule mask_select_filter [OF len])
    have "units_unique plants =
        ([(ERROR,
           ''The names of the power plants are not unique. The following names are duplicates: . appears for example in the following zones:'',
           [StrCells duplicates, Val d,
            StrCells (map snd (filter (\<lambda>row. fst row = d) (zip Unit Zone)))])],
         Inl (SysExit 1))"
      using nd dup [unfolded duplicates_def] zones
      by (simp add: units_unique_def col_def attr_def U' Z lift_def remdups_length_distinct
          fatal_def log_concat_def sys_exit_def d duplicates_def)
    then show ?thesis
      by (simp add: check_units_def pre dup)
  qed
  have uniq: "units_unique plants = ret ()" if "distinct Unit"
    using that by (simp add: units_unique_def col_def U' lift_def remdups_length_distinct)
  show ?thesis
    using main uniq set_dup by (auto simp: attr_def Z duplicates_def)
qed

text \<open>
  The theorem at a table of three units of which the first and the third are named A,
  in the zones Z1 and Z3: the checks of the columns pass, and \<^verbatim>\<open>check_units\<close> stops
  with the message that lists A, and the zones Z1 and Z3.
\<close>

theorem check_units_unique_names_witness:
  "wf_frame units_same_name
   \<and> col units_same_name ''Unit'' = Inr [Str ''A'', Str ''B'', Str ''A'']
   \<and> check_units (\<lambda>s. None) exact [(''HorizonLength'', Num (Fin 3))] units_same_name =
       ([(INFO,
          ''The columns Nunits is not present in the power plant database. A value of one will be assumed by default'',
          []),
         (ERROR,
          ''The names of the power plants are not unique. The following names are duplicates: . appears for example in the following zones:'',
          [StrCells [Str ''A''], Val (Str ''A''), StrCells [Str ''Z1'', Str ''Z3'']])],
        Inl (SysExit 1))"
proof -
  have wf: "wf_frame units_same_name"
    by (simp add: wf_frame_def units_same_name_def mandatory_columns_def)
  have U: "col units_same_name ''Unit'' = Inr [Str ''A'', Str ''B'', Str ''A'']"
    by (simp add: col_def units_same_name_def mandatory_columns_def)
  have Z: "attr units_same_name ''Zone'' = Inr [Str ''Z1'', Str ''Z2'', Str ''Z3'']"
    by (simp add: attr_def units_same_name_def mandatory_columns_def)
  have pre: "units_columns (\<lambda>s. None) units_same_name =
       ([(INFO,
          ''The columns Nunits is not present in the power plant database. A value of one will be assumed by default'',
          [])], Inr ())"
    by code_simp
  have dup: "mask_select [Str ''A'', Str ''B'', Str ''A''] (duplicated [Str ''A'', Str ''B'', Str ''A''])
      = [Str ''A'']"
    by (simp add: duplicated_def)
  from check_units_unique_names
    [OF wf U pre, of exact "[(''HorizonLength'', Num (Fin 3))]"]
  have "\<exists>Zone duplicates.
               attr units_same_name ''Zone'' = Inr Zone \<and>
               duplicates = mask_select [Str ''A'', Str ''B'', Str ''A'']
                              (duplicated [Str ''A'', Str ''B'', Str ''A'']) \<and>
               check_units (\<lambda>s. None) exact [(''HorizonLength'', Num (Fin 3))] units_same_name =
                       ([(INFO,
                          ''The columns Nunits is not present in the power plant database. A value of one will be assumed by default'',
                          [])] @
                        [(ERROR,
                              ''The names of the power plants are not unique. The following names are duplicates: . appears for example in the following zones:'',
                              [StrCells duplicates, Val (hd duplicates),
                               StrCells (map snd (filter (\<lambda>row. fst row = hd duplicates)
                                                    (zip [Str ''A'', Str ''B'', Str ''A''] Zone)))])],
                        Inl (SysExit 1))"
    by auto
  then show ?thesis
    using wf U by (auto simp: Z dup)
qed

text \<open>
  Claim C9 as the specification states it fails: a repeated name does not always lead to
  the message about the names.  The checks run in order, and a table that fails an
  earlier one stops there.  The three units above without the column \<^verbatim>\<open>Zone\<close>: the
  check fails fatally on the missing column, and its messages do not mention the names.
  The three units above with the fifteen mandatory columns and no column
  \<^verbatim>\<open>RampingCost\<close>: the lookup of line 283 raises \<^verbatim>\<open>KeyError\<close>, and the check
  neither fails fatally nor logs a message about the names.
\<close>

theorem check_units_repeated_name_counterexample:
  "col units_same_name_without_Zone ''Unit'' = Inr [Str ''A'', Str ''B'', Str ''A'']
   \<and> check_units (\<lambda>s. None) exact [(''HorizonLength'', Num (Fin 3))]
        units_same_name_without_Zone =
       ([(INFO,
          ''The columns Nunits is not present in the power plant database. A value of one will be assumed by default'',
          []),
         (CRITICAL, ''The power plants data does not contain the field, which is mandatory'',
          [Lit ''Zone''])],
        Inl (SysExit 1))
   \<and> col units_same_name_without_RampingCost ''Unit'' = Inr [Str ''A'', Str ''B'', Str ''A'']
   \<and> check_units (\<lambda>s. None) exact [(''HorizonLength'', Num (Fin 3))]
        units_same_name_without_RampingCost =
       ([(INFO,
          ''The columns Nunits is not present in the power plant database. A value of one will be assumed by default'',
          [])],
        Inl (Raised KeyError))"
  by code_simp

text \<open>
  Claim C10.  \<^verbatim>\<open>RampingCost\<close> is in the list \<^verbatim>\<open>NonNaNKeys\<close> and not in the list
  \<^verbatim>\<open>keys\<close> of the mandatory columns.  Take a well-formed table with at least one row that
  has the fifteen mandatory columns, numbers (none of them \<^verbatim>\<open>nan\<close>) in the five columns
  that are checked before \<^verbatim>\<open>RampingCost\<close>, a column \<^verbatim>\<open>Nunits\<close> that is absent or
  passes its own check, and no column \<^verbatim>\<open>RampingCost\<close>.  Then the lookup of line 283
  raises \<^verbatim>\<open>KeyError\<close>: \<^verbatim>\<open>check_units\<close> does not return, and it has logged nothing but
  the information about \<^verbatim>\<open>Nunits\<close>, so no critical message about a missing column.
\<close>

theorem check_units_RampingCost_unguarded:
  assumes wf: "wf_frame plants"
    and rows: "index plants \<noteq> []"
    and keys: "list_all (has_col plants) units_keys"
    and valid: "list_all (numbers_given plants)
                  [''PowerCapacity'', ''PartLoadMin'', ''RampUpRate'', ''RampDownRate'', ''Efficiency'']"
    and nunits: "units_Nunits parse plants = (l, Inr ())"
    and missing: "\<not> has_col plants ''RampingCost''"
  shows "check_units parse fl config plants = (l, Inl (Raised KeyError))
         \<and> list_all (\<lambda>e. fst e = INFO) l"
proof
  show "list_all (\<lambda>e. fst e = INFO) l" using nunits by (rule units_Nunits_log)
next
  have fields: "units_fields plants = ret ()"
    unfolding units_fields_def
  proof (rule for_each_ret)
    fix key assume "key \<in> set (units_keys @ Nunits_keys plants)"
    then have "has_col plants key"
      using keys by (auto simp: list_all_iff Nunits_keys_def split: if_splits)
    then show "(if \<not> has_col plants key
          then fatal CRITICAL
            ''The power plants data does not contain the field, which is mandatory'' [Lit key]
          else ret ()) = ret ()" by simp
  qed
  from rows obtain u us where idx: "index plants = u # us" by (cases "index plants") auto
  have ramping: "for_each (\<lambda>u.
             andthen (lift (loc plants u ''RampingCost'')) (\<lambda>v.
             if is_str v
             then fatal CRITICAL
               ''A non numeric value was detected in the power plants inputs for parameter''
               [Lit ''RampingCost'']
             else if isnull v
             then fatal CRITICAL
               ''The power plants data is missing for unit number and parameter''
               [StrOf u, Lit ''RampingCost'']
             else ret ()))
           (index plants) = raise KeyError"
    by (simp add: idx loc_no_column [OF missing] lift_def raise_def)
  have nonnan: "units_nonnan plants = raise KeyError"
    using valid
    by (simp add: units_nonnan_def units_NonNaNKeys_def nonnan_column_passes [OF wf] ramping)
      (simp add: raise_def)
  show "check_units parse fl config plants = (l, Inl (Raised KeyError))"
    by (simp add: check_units_def units_columns_def nunits fields nonnan) (simp add: raise_def)
qed

text \<open>The theorem at a table of one unit with the fifteen mandatory columns only.\<close>

theorem check_units_RampingCost_unguarded_witness:
  "check_units (\<lambda>s. None) exact [(''HorizonLength'', Num (Fin 3))] unit_without_RampingCost =
     ([(INFO,
        ''The columns Nunits is not present in the power plant database. A value of one will be assumed by default'',
        [])],
      Inl (Raised KeyError))"
proof -
  have wf: "wf_frame unit_without_RampingCost"
    by (simp add: wf_frame_def unit_without_RampingCost_def mandatory_columns_def)
  have rows: "index unit_without_RampingCost \<noteq> []"
    by (simp add: unit_without_RampingCost_def)
  have keys: "list_all (has_col unit_without_RampingCost) units_keys"
    by (simp add: has_col_def units_keys_def unit_without_RampingCost_def mandatory_columns_def)
  have valid: "list_all (numbers_given unit_without_RampingCost)
      [''PowerCapacity'', ''PartLoadMin'', ''RampUpRate'', ''RampDownRate'', ''Efficiency'']"
    by (simp add: numbers_given_def col_def unit_without_RampingCost_def mandatory_columns_def)
  have nunits: "units_Nunits (\<lambda>s. None) unit_without_RampingCost =
      ([(INFO,
         ''The columns Nunits is not present in the power plant database. A value of one will be assumed by default'',
         [])], Inr ())"
    by (simp add: units_Nunits_def has_col_def log_format_def unit_without_RampingCost_def
        mandatory_columns_def)
  have missing: "\<not> has_col unit_without_RampingCost ''RampingCost''"
    by (simp add: has_col_def unit_without_RampingCost_def mandatory_columns_def)
  from check_units_RampingCost_unguarded [OF wf rows keys valid nunits missing]
  show ?thesis by simp
qed

section \<open>The claim about \<^verbatim>\<open>check_AvailabilityFactors\<close>\<close>




section \<open>The claims about \<^verbatim>\<open>check_clustering\<close>\<close>

lemmas rows_defs =
  table_of_rows_def unit_of_def two_gas_units_def clustered_gas_unit_def small_gas_unit_def
  hydro_unit_def holds_rows_def wf_frame_def attr_def pairs_of_def capacity_differs_def
  capacity_def storage_capacity_def exact_sum_def exact_def differs_def isStorage_def
  ngt_def nsub_def

text \<open>
  Claim C6, as the code has it.  Take an original and a clustered table given by their
  rows, whatever the rounding of the arithmetic and of the summation.  For each pair of
  technology and fuel of the original table, the totals \<open>P_old\<close> and \<open>P_new\<close> are
  the sums of \<^verbatim>\<open>PowerCapacity\<close> times \<^verbatim>\<open>Nunits\<close> over the rows of the pair in the
  two tables.  \<^verbatim>\<open>check_clustering\<close> fails fatally exactly when the test
  \<^verbatim>\<open>np.abs(P_old - P_new)/(P_old + 0.0001) > 0.01\<close>, evaluated in floating point on
  these totals, holds for some pair: it then logs, for the first such pair, one error
  message with the pair and both totals and stops with \<^verbatim>\<open>sys.exit(1)\<close>; otherwise it
  returns \<^verbatim>\<open>True\<close>.
\<close>

theorem check_clustering_capacity:
  assumes old: "holds_rows plants rows" and new: "holds_rows plants_merged rows'"
  shows "if \<exists>tf \<in> set (pairs_of rows). capacity_differs fl series_sum rows rows' tf
         then \<exists>tf. tf \<in> set (pairs_of rows) \<and> capacity_differs fl series_sum rows rows' tf \<and>
                check_clustering fl series_sum plants plants_merged =
                  ([(ERROR,
                     ''The installed capacity for technology and fuel is not equal between the original units table (P = ) and the clustered table (P = )'',
                     [Val (Str (fst tf)), Val (Str (snd tf)), StrNum (capacity fl series_sum rows tf),
                      StrNum (capacity fl series_sum rows' tf)])],
                   Inl (SysExit 1))
         else \<exists>l. check_clustering fl series_sum plants plants_merged = (l, Inr True)"
proof (cases "\<exists>tf \<in> set (pairs_of rows). capacity_differs fl series_sum rows rows' tf")
  case True
  from clustering_loop_stop [OF old new True] obtain tf
    where tf: "tf \<in> set (pairs_of rows)" "capacity_differs fl series_sum rows rows' tf"
      and loop: "for_each (clustering_pair fl series_sum plants plants_merged)
             (drop_duplicates (map (\<lambda>r. (Str (row_Technology r), Str (row_Fuel r))) rows)) =
           ([(ERROR,
              ''The installed capacity for technology and fuel is not equal between the original units table (P = ) and the clustered table (P = )'',
              [Val (Str (fst tf)), Val (Str (snd tf)), StrNum (capacity fl series_sum rows tf),
               StrNum (capacity fl series_sum rows' tf)])],
            Inl (SysExit 1))"
    by auto
  have "\<exists>tf. tf \<in> set (pairs_of rows) \<and> capacity_differs fl series_sum rows rows' tf \<and>
                check_clustering fl series_sum plants plants_merged =
                  ([(ERROR,
                     ''The installed capacity for technology and fuel is not equal between the original units table (P = ) and the clustered table (P = )'',
                     [Val (Str (fst tf)), Val (Str (snd tf)), StrNum (capacity fl series_sum rows tf),
                      StrNum (capacity fl series_sum rows' tf)])],
                   Inl (SysExit 1))"
    using check_clustering_stop [OF old loop] tf by (intro exI [of _ tf]) simp
  then show ?thesis unfolding if_P [OF True] .
next
  case False
  from clustering_loop_pass [OF old new False]
  have "\<exists>l. check_clustering fl series_sum plants plants_merged = (l, Inr True)"
    using check_clustering_pass [OF old new _ refl refl] by simp
  then show ?thesis unfolding if_not_P [OF False] .
qed

text \<open>
  The theorem at two gas units of 100 and 50, computed without rounding (the numbers of
  the example and their sums are integers): with a clustered unit of 150 the check
  returns \<^verbatim>\<open>True\<close>; with a clustered unit of 140 it fails fatally, the message
  holding the totals 150 and 140.
\<close>

theorem check_clustering_capacity_witness:
  "snd (check_clustering exact exact_sum (table_of_rows two_gas_units)
          (table_of_rows (clustered_gas_unit 150)))
     = Inr True
   \<and> check_clustering exact exact_sum (table_of_rows two_gas_units)
       (table_of_rows (clustered_gas_unit 140)) =
       ([(ERROR,
          ''The installed capacity for technology and fuel is not equal between the original units table (P = ) and the clustered table (P = )'',
          [Val (Str ''GAS''), Val (Str ''NG''), StrNum (Fin 150), StrNum (Fin 140)])],
        Inl (SysExit 1))"
proof
  have old: "holds_rows (table_of_rows two_gas_units) two_gas_units"
    by (simp add: rows_defs)
  have new150: "holds_rows (table_of_rows (clustered_gas_unit 150)) (clustered_gas_unit 150)"
    by (simp add: rows_defs)
  have new140: "holds_rows (table_of_rows (clustered_gas_unit 140)) (clustered_gas_unit 140)"
    by (simp add: rows_defs)
  have within: "\<not> (\<exists>tf \<in> set (pairs_of two_gas_units).
      capacity_differs exact exact_sum two_gas_units (clustered_gas_unit 150) tf)"
    by (simp add: rows_defs)
  have exceeds: "\<exists>tf \<in> set (pairs_of two_gas_units).
      capacity_differs exact exact_sum two_gas_units (clustered_gas_unit 140) tf"
    by (simp add: rows_defs)
  have pairs: "set (pairs_of two_gas_units) = {(''GAS'', ''NG'')}"
    by (simp add: rows_defs)
  have totals: "capacity exact exact_sum two_gas_units (''GAS'', ''NG'') = Fin 150"
    "capacity exact exact_sum (clustered_gas_unit 140) (''GAS'', ''NG'') = Fin 140"
    by (simp_all add: rows_defs)
  from check_clustering_capacity [OF old new150, of exact exact_sum] within
  show "snd (check_clustering exact exact_sum (table_of_rows two_gas_units)
               (table_of_rows (clustered_gas_unit 150))) = Inr True"
    by auto
  from check_clustering_capacity [OF old new140, of exact exact_sum] exceeds
  have "\<exists>tf. tf \<in> set (pairs_of two_gas_units) \<and>
                check_clustering exact exact_sum (table_of_rows two_gas_units)
                  (table_of_rows (clustered_gas_unit 140)) =
                  ([(ERROR,
                     ''The installed capacity for technology and fuel is not equal between the original units table (P = ) and the clustered table (P = )'',
                     [Val (Str (fst tf)), Val (Str (snd tf)),
                      StrNum (capacity exact exact_sum two_gas_units tf),
                      StrNum (capacity exact exact_sum (clustered_gas_unit 140) tf)])],
                   Inl (SysExit 1))"
    by auto
  then show "check_clustering exact exact_sum (table_of_rows two_gas_units)
               (table_of_rows (clustered_gas_unit 140)) =
       ([(ERROR,
          ''The installed capacity for technology and fuel is not equal between the original units table (P = ) and the clustered table (P = )'',
          [Val (Str ''GAS''), Val (Str ''NG''), StrNum (Fin 150), StrNum (Fin 140)])],
        Inl (SysExit 1))"
    unfolding pairs by (auto simp: totals)
qed

text \<open>
  Claim C6 as the specification states it fails: the check does not fail exactly when the
  relative difference exceeds 1%.  For a gas unit of 0.0001 MW clustered into a unit of
  0.0001015 MW the relative difference is 1.5%, and the check returns \<^verbatim>\<open>True\<close>:
  the code divides by the original total plus 0.0001, and the quotient, 0.0075, is well
  below 0.01.
\<close>

theorem check_clustering_relative_difference_counterexample:
  "capacity exact exact_sum small_gas_unit (''GAS'', ''NG'') = Fin 0.0001
   \<and> capacity exact exact_sum (clustered_gas_unit 0.0001015) (''GAS'', ''NG'') = Fin 0.0001015
   \<and> (0.01 :: real) < \<bar>0.0001 - 0.0001015\<bar> / 0.0001
   \<and> \<bar>0.0001 - 0.0001015\<bar> / (0.0001 + 0.0001) = (0.0075 :: real)
   \<and> check_clustering exact exact_sum (table_of_rows small_gas_unit)
        (table_of_rows (clustered_gas_unit 0.0001015)) = ([], Inr True)"
proof (intro conjI)
  show "check_clustering exact exact_sum (table_of_rows small_gas_unit)
        (table_of_rows (clustered_gas_unit 0.0001015)) = ([], Inr True)"
    by code_simp
qed (simp_all add: rows_defs)

text \<open>
  Claim C7, as the code has it.  Take an original and a clustered table given by their
  rows, without units of technology P2GS, whatever the rounding of the arithmetic and of
  the summation.  If no pair of technology and fuel fails the test of the installed
  capacities, then \<^verbatim>\<open>check_clustering\<close> returns \<^verbatim>\<open>True\<close> without terminating
  the process, and it logs one error message with the total storage capacities \<open>a\<close>
  and \<open>b\<close> of the two tables exactly when the test
  \<^verbatim>\<open>np.abs(a - b)/(a + 0.0001) > 0.01\<close>, evaluated in floating point, holds.
\<close>

theorem check_clustering_storage_not_fatal:
  assumes old: "holds_rows plants rows" and new: "holds_rows plants_merged rows'"
    and no_P2GS: "list_all (\<lambda>r. row_Technology r \<noteq> ''P2GS'') rows"
    and no_P2GS': "list_all (\<lambda>r. row_Technology r \<noteq> ''P2GS'') rows'"
    and within: "\<not> (\<exists>tf \<in> set (pairs_of rows). capacity_differs fl series_sum rows rows' tf)"
  shows "check_clustering fl series_sum plants plants_merged =
           ((if differs fl (storage_capacity fl series_sum rows) (storage_capacity fl series_sum rows')
             then [(ERROR,
                    ''The total installed storage capacity is not equal between the original units table () and the clustered table ()'',
                    [StrNum (storage_capacity fl series_sum rows),
                     StrNum (storage_capacity fl series_sum rows')])]
             else []),
            Inr True)"
proof -
  have T: "storage_capacity fl series_sum rows =
             series_sum (map (\<lambda>r. nmul fl (row_STOCapacity r) (row_Nunits r))
                 (filter (\<lambda>r. Str (row_Technology r) \<in> set List_tech_storage) rows))"
    unfolding storage_rows_without_P2GS [OF no_P2GS] by (simp add: storage_capacity_def)
  have T': "storage_capacity fl series_sum rows' =
             series_sum (map (\<lambda>r. nmul fl (row_STOCapacity r) (row_Nunits r))
                 (filter (\<lambda>r. Str (row_Technology r) \<in> set List_tech_storage) rows'))"
    unfolding storage_rows_without_P2GS [OF no_P2GS'] by (simp add: storage_capacity_def)
  from check_clustering_pass [OF old new clustering_loop_pass [OF old new within] T T']
  show ?thesis .
qed

text \<open>
  The theorem at a hydro unit with a reservoir of 1000 MWh, clustered into a unit with
  a reservoir of 900 MWh, computed without rounding: the error is logged and the check
  returns \<^verbatim>\<open>True\<close>.
\<close>

theorem check_clustering_storage_not_fatal_witness:
  "check_clustering exact exact_sum (table_of_rows (hydro_unit 1000))
     (table_of_rows (hydro_unit 900)) =
     ([(ERROR,
        ''The total installed storage capacity is not equal between the original units table () and the clustered table ()'',
        [StrNum (Fin 1000), StrNum (Fin 900)])],
      Inr True)"
proof -
  have old: "holds_rows (table_of_rows (hydro_unit 1000)) (hydro_unit 1000)"
    by (simp add: rows_defs)
  have new: "holds_rows (table_of_rows (hydro_unit 900)) (hydro_unit 900)"
    by (simp add: rows_defs)
  have no_P2GS: "list_all (\<lambda>r. row_Technology r \<noteq> ''P2GS'') (hydro_unit 1000)"
    by (simp add: rows_defs)
  have no_P2GS': "list_all (\<lambda>r. row_Technology r \<noteq> ''P2GS'') (hydro_unit 900)"
    by (simp add: rows_defs)
  have within: "\<not> (\<exists>tf \<in> set (pairs_of (hydro_unit 1000)).
      capacity_differs exact exact_sum (hydro_unit 1000) (hydro_unit 900) tf)"
    by (simp add: rows_defs)
  have sto: "storage_capacity exact exact_sum (hydro_unit 1000) = Fin 1000"
    by (simp add: rows_defs)
  have sto': "storage_capacity exact exact_sum (hydro_unit 900) = Fin 900"
    by (simp add: rows_defs)
  from check_clustering_storage_not_fatal [OF old new no_P2GS no_P2GS' within]
  show ?thesis unfolding sto sto' by (simp add: differs_def exact_def ngt_def nsub_def)
qed

text \<open>
  Claim C7 as the specification states it fails: with reservoirs of 0.0001 MWh and
  0.0001015 MWh the installed capacities are equal and the storage capacities differ by
  1.5%, and the check logs nothing: the quotient of the test is 0.0075.
\<close>

theorem check_clustering_storage_counterexample:
  "\<not> capacity_differs exact exact_sum (hydro_unit 0.0001) (hydro_unit 0.0001015)
       (''HDAM'', ''WAT'')
   \<and> storage_capacity exact exact_sum (hydro_unit 0.0001) = Fin 0.0001
   \<and> storage_capacity exact exact_sum (hydro_unit 0.0001015) = Fin 0.0001015
   \<and> (0.01 :: real) < \<bar>0.0001 - 0.0001015\<bar> / 0.0001
   \<and> \<bar>0.0001 - 0.0001015\<bar> / (0.0001 + 0.0001) = (0.0075 :: real)
   \<and> check_clustering exact exact_sum (table_of_rows (hydro_unit 0.0001))
        (table_of_rows (hydro_unit 0.0001015)) = ([], Inr True)"
proof (intro conjI)
  show "check_clustering exact exact_sum (table_of_rows (hydro_unit 0.0001))
        (table_of_rows (hydro_unit 0.0001015)) = ([], Inr True)"
    by code_simp
qed (simp_all add: rows_defs)

section \<open>The claim about the arguments of the checkers\<close>




end
